theory Spec2Isabelle
  imports Main "HOL-Library.Product_Lexorder"
begin

section \<open>Values of the feeds\<close>

text \<open>
  The three feeds, the client configuration and the instrument metadata are Python
  objects built from JSON: \<open>None\<close>, booleans, integers, strings, lists and
  dictionaries keyed by strings.  A dictionary is an association list in insertion
  order with distinct keys; \<open>d.get(k)\<close> is the first entry under \<open>k\<close>.
  Floating-point numbers are not part of the model, and the characters of a string are
  those of ASCII.
\<close>

datatype pyval =
    PNone
  | PBool bool
  | PInt int
  | PStr string
  | PList "pyval list"
  | PDict "(string \<times> pyval) list"

text \<open>The exceptions the code can meet; \<open>ApiError\<close> is whatever a feed call raises.\<close>

datatype exn =
    KeyError string
  | AttributeError
  | TypeError
  | ValueError
  | ApiError string

text \<open>
  Every \<open>print\<close> of the source is one event of the log, in the order printed; the
  events carry what the message interpolates.
\<close>

datatype log_msg =
    TimestampWarning string
  | ApiNotFound string
  | FetchError string exn
  | PositionError string exn
  | HoldingError string exn
  | OrderError string exn
  | InstrumentError string string exn

subsection \<open>Truth value, \<open>or\<close>, \<open>dict.get\<close>\<close>

fun truthy :: "pyval \<Rightarrow> bool" where
  "truthy PNone = False"
| "truthy (PBool b) = b"
| "truthy (PInt i) = (i \<noteq> 0)"
| "truthy (PStr s) = (s \<noteq> [])"
| "truthy (PList xs) = (xs \<noteq> [])"
| "truthy (PDict d) = (d \<noteq> [])"

definition py_or :: "pyval \<Rightarrow> pyval \<Rightarrow> pyval" where
  "py_or a b = (if truthy a then a else b)"

text \<open>\<open>d.get(k)\<close> and \<open>d.get(k, default)\<close> on a dictionary.\<close>

definition dict_get :: "(string \<times> pyval) list \<Rightarrow> string \<Rightarrow> pyval" where
  "dict_get d k = (case map_of d k of None \<Rightarrow> PNone | Some v \<Rightarrow> v)"

definition dict_get_default :: "(string \<times> pyval) list \<Rightarrow> string \<Rightarrow> pyval \<Rightarrow> pyval" where
  "dict_get_default d k dflt = (case map_of d k of None \<Rightarrow> dflt | Some v \<Rightarrow> v)"

text \<open>\<open>x.get(k)\<close> on any value: only a dictionary has the method.\<close>

fun py_get :: "pyval \<Rightarrow> string \<Rightarrow> exn + pyval" where
  "py_get (PDict d) k = Inr (dict_get d k)"
| "py_get _ k = Inl AttributeError"

fun py_get_default :: "pyval \<Rightarrow> string \<Rightarrow> pyval \<Rightarrow> exn + pyval" where
  "py_get_default (PDict d) k dflt = Inr (dict_get_default d k dflt)"
| "py_get_default _ k dflt = Inl AttributeError"

text \<open>\<open>x[k]\<close> with a string key: a missing key raises \<open>KeyError\<close>, a value that
  is no dictionary raises \<open>TypeError\<close>.\<close>

fun py_index :: "pyval \<Rightarrow> string \<Rightarrow> exn + pyval" where
  "py_index (PDict d) k = (case map_of d k of None \<Rightarrow> Inl (KeyError k) | Some v \<Rightarrow> Inr v)"
| "py_index _ k = Inl TypeError"

text \<open>\<open>for x in v\<close>: a list gives its elements, a dictionary its keys, a string its
  characters; nothing else is iterable.\<close>

fun py_iter :: "pyval \<Rightarrow> exn + pyval list" where
  "py_iter (PList xs) = Inr xs"
| "py_iter (PDict d) = Inr (map (\<lambda>kv. PStr (fst kv)) d)"
| "py_iter (PStr s) = Inr (map (\<lambda>c. PStr [c]) s)"
| "py_iter _ = Inl TypeError"

text \<open>\<open>d.items()\<close>.\<close>

fun py_items :: "pyval \<Rightarrow> exn + (string \<times> pyval) list" where
  "py_items (PDict d) = Inr d"
| "py_items _ = Inl AttributeError"

subsection \<open>\<open>int(x)\<close>\<close>

text \<open>
  \<open>int\<close> of a string strips white space (tab, line feed, vertical tab, form feed,
  carriage return and space), reads an optional sign and then decimal digits, where
  single underscores may stand between digits; anything else raises \<open>ValueError\<close>,
  and so does a string of more than 4300 digits (the default limit of CPython 3.11 on
  the conversion between integers and decimal strings).
\<close>

definition max_str_digits :: nat where
  "max_str_digits = 4300"

definition is_space :: "char \<Rightarrow> bool" where
  "is_space c = (let n = of_char c :: nat in (9 \<le> n \<and> n \<le> 13) \<or> n = 32)"

definition is_digit :: "char \<Rightarrow> bool" where
  "is_digit c = (let n = of_char c :: nat in 48 \<le> n \<and> n \<le> 57)"

definition digit_val :: "char \<Rightarrow> int" where
  "digit_val c = int (of_char c) - 48"

definition strip :: "string \<Rightarrow> string" where
  "strip s = rev (dropWhile is_space (rev (dropWhile is_space s)))"

text \<open>\<open>digits acc after_digit s\<close>: the value read so far, and whether the previous
  character was a digit (an underscore is allowed only between two digits).\<close>

fun digits :: "int \<Rightarrow> bool \<Rightarrow> string \<Rightarrow> int option" where
  "digits acc after_digit [] = (if after_digit then Some acc else None)"
| "digits acc after_digit (c # cs) =
     (if is_digit c then digits (acc * 10 + digit_val c) True cs
      else if c = CHR ''_'' \<and> after_digit \<and> cs \<noteq> [] \<and> is_digit (hd cs) then digits acc False cs
      else None)"

definition unsigned_of_string :: "string \<Rightarrow> int option" where
  "unsigned_of_string s =
     (if max_str_digits < length (filter is_digit s) then None else digits 0 False s)"

definition int_of_string :: "string \<Rightarrow> int option" where
  "int_of_string s =
     (case strip s of
        [] \<Rightarrow> None
      | c # cs \<Rightarrow>
          if c = CHR ''-'' then map_option uminus (unsigned_of_string cs)
          else if c = CHR ''+'' then unsigned_of_string cs
          else unsigned_of_string (c # cs))"

fun py_int :: "pyval \<Rightarrow> exn + int" where
  "py_int (PInt i) = Inr i"
| "py_int (PBool b) = Inr (if b then 1 else 0)"
| "py_int (PStr s) = (case int_of_string s of None \<Rightarrow> Inl ValueError | Some i \<Rightarrow> Inr i)"
| "py_int _ = Inl TypeError"

section \<open>Timestamp normalizer\<close>

text \<open>
  \<open>datetime.strptime\<close> belongs to the Python library, not to this repository: it is
  a parameter \<open>strp\<close> of the model, \<open>strp s fmt = None\<close> standing for the
  \<open>ValueError\<close> of a string that does not match the format.  A point in time is any
  linearly ordered type.  A timestamp that is no string makes \<open>strptime\<close> raise
  \<open>TypeError\<close>, which \<open>parse_order_time\<close> does not catch.
\<close>

definition formats :: "string list" where
  "formats =
     [''%Y-%m-%d %H:%M:%S.%f'',
      ''%Y-%m-%d %H:%M:%S'',
      ''%d-%m-%Y %H:%M:%S'',
      ''%m/%d/%Y %H:%M:%S'',
      ''%d-%b-%Y %H:%M:%S'']"

fun try_formats :: "(string \<Rightarrow> string \<Rightarrow> 't option) \<Rightarrow> string \<Rightarrow> string list \<Rightarrow> 't option" where
  "try_formats strp ts_str [] = None"
| "try_formats strp ts_str (fmt # fmts) =
     (case strp ts_str fmt of
        Some t \<Rightarrow> Some t
      | None \<Rightarrow> try_formats strp ts_str fmts)"

fun parse_order_time ::
  "(string \<Rightarrow> string \<Rightarrow> 't option) \<Rightarrow> pyval \<Rightarrow> (exn + 't option) \<times> log_msg list" where
  "parse_order_time strp (PStr ts_str) =
     (case try_formats strp ts_str formats of
        Some t \<Rightarrow> (Inr (Some t), [])
      | None \<Rightarrow> (Inr None, [TimestampWarning ts_str]))"
| "parse_order_time strp _ = (Inl TypeError, [])"

section \<open>Feed normalizers\<close>

text \<open>
  A stage that can raise returns \<open>Inl\<close> of the exception, next to the events it
  logged before.  An exception that no \<open>try\<close> of the source catches leaves
  \<open>generate_summary_data_sell\<close> and ends the run.
\<close>

type_synonym 'a logged = "(exn + 'a) \<times> log_msg list"

definition on_ok :: "exn + 'a \<Rightarrow> ('a \<Rightarrow> 'b logged) \<Rightarrow> 'b logged" where
  "on_ok r f = (case r of Inl e \<Rightarrow> (Inl e, []) | Inr x \<Rightarrow> f x)"

subsection \<open>Positions\<close>

record position_entry =
  trading_symbol :: pyval
  quantity :: pyval

text \<open>The candidate id of a position record: the first truthy one of three fields.\<close>

definition position_inst_id :: "(string \<times> pyval) list \<Rightarrow> pyval" where
  "position_inst_id pos =
     py_or (py_or (dict_get pos ''ExchangeInstrumentID'') (dict_get pos ''ExchangeNSEInstrumentID''))
       (dict_get pos ''ExchangeNSEInstrumentId'')"

fun position_loop ::
  "string \<Rightarrow> pyval list \<Rightarrow> (int \<rightharpoonup> position_entry) \<Rightarrow> log_msg list
     \<Rightarrow> (int \<rightharpoonup> position_entry) logged" where
  "position_loop client_id [] live_positions lg = (Inr live_positions, lg)"
| "position_loop client_id (PDict pos # rest) live_positions lg =
     (let inst_id = position_inst_id pos in
      if truthy inst_id then
        (case py_int inst_id of
           Inr i \<Rightarrow>
             position_loop client_id rest
               (live_positions(i \<mapsto>
                  \<lparr>trading_symbol = dict_get_default pos ''TradingSymbol'' (PStr ''N/A''),
                   quantity = dict_get_default pos ''Quantity'' (PInt 0)\<rparr>)) lg
         | Inl e \<Rightarrow> position_loop client_id rest live_positions (lg @ [PositionError client_id e]))
      else position_loop client_id rest live_positions lg)"
| "position_loop client_id (_ # rest) live_positions lg = (Inl AttributeError, lg)"

definition process_positions :: "string \<Rightarrow> pyval \<Rightarrow> (int \<rightharpoonup> position_entry) logged" where
  "process_positions client_id pos_response =
     on_ok (py_get pos_response ''type'') (\<lambda>tag.
       if tag = PStr ''success'' then
         on_ok (py_index pos_response ''result'') (\<lambda>result.
         on_ok (py_get_default result ''positionList'' (PList [])) (\<lambda>position_list.
         on_ok (py_iter position_list) (\<lambda>records.
           position_loop client_id records Map.empty [])))
       else (Inr Map.empty, []))"

subsection \<open>Holdings\<close>

record holding_entry =
  holding_quantity :: pyval
  buy_avg_price :: pyval

definition holding_inst_id :: "(string \<times> pyval) list \<Rightarrow> pyval" where
  "holding_inst_id holding =
     py_or (dict_get holding ''ExchangeNSEInstrumentID'') (dict_get holding ''ExchangeNSEInstrumentId'')"

fun holding_loop ::
  "string \<Rightarrow> (string \<times> pyval) list \<Rightarrow> (int \<rightharpoonup> holding_entry) \<Rightarrow> log_msg list
     \<Rightarrow> (int \<rightharpoonup> holding_entry) logged" where
  "holding_loop client_id [] holdings lg = (Inr holdings, lg)"
| "holding_loop client_id ((isin, PDict holding) # rest) holdings lg =
     (let inst_id = holding_inst_id holding in
      if truthy inst_id then
        (case py_int inst_id of
           Inr i \<Rightarrow>
             holding_loop client_id rest
               (holdings(i \<mapsto>
                  \<lparr>holding_quantity = dict_get_default holding ''HoldingQuantity'' (PInt 0),
                   buy_avg_price = dict_get_default holding ''BuyAvgPrice'' (PInt 0)\<rparr>)) lg
         | Inl e \<Rightarrow> holding_loop client_id rest holdings (lg @ [HoldingError client_id e]))
      else holding_loop client_id rest holdings lg)"
| "holding_loop client_id (_ # rest) holdings lg = (Inl AttributeError, lg)"

definition process_holdings :: "string \<Rightarrow> pyval \<Rightarrow> (int \<rightharpoonup> holding_entry) logged" where
  "process_holdings client_id holding_response =
     on_ok (py_get holding_response ''type'') (\<lambda>tag.
       if tag = PStr ''success'' then
         on_ok (py_index holding_response ''result'') (\<lambda>result.
         on_ok (py_index result ''RMSHoldings'') (\<lambda>rms.
         on_ok (py_index rms ''Holdings'') (\<lambda>hs.
         on_ok (py_items hs) (\<lambda>items.
           holding_loop client_id items Map.empty []))))
       else (Inr Map.empty, []))"

subsection \<open>Orders\<close>

record order_agg =
  executed :: int
  open_qty :: int
  rejected :: int

definition zero_agg :: order_agg where
  "zero_agg = \<lparr>executed = 0, open_qty = 0, rejected = 0\<rparr>"

text \<open>\<open>instrument_orders[inst_id]\<close> on the \<open>defaultdict\<close>.\<close>

definition agg_of :: "(int \<rightharpoonup> order_agg) \<Rightarrow> int \<Rightarrow> order_agg" where
  "agg_of instrument_orders inst_id =
     (case instrument_orders inst_id of None \<Rightarrow> zero_agg | Some a \<Rightarrow> a)"

text \<open>\<open>str.upper\<close>, on the letters \<open>a\<close> to \<open>z\<close>.\<close>

definition upper_char :: "char \<Rightarrow> char" where
  "upper_char c =
     (case map_of (zip ''abcdefghijklmnopqrstuvwxyz'' ''ABCDEFGHIJKLMNOPQRSTUVWXYZ'') c of
        None \<Rightarrow> c
      | Some u \<Rightarrow> u)"

fun py_upper :: "pyval \<Rightarrow> exn + string" where
  "py_upper (PStr s) = Inr (map upper_char s)"
| "py_upper _ = Inl AttributeError"

definition bind :: "exn + 'a \<Rightarrow> ('a \<Rightarrow> exn + 'b) \<Rightarrow> exn + 'b" where
  "bind r f = (case r of Inl e \<Rightarrow> Inl e | Inr x \<Rightarrow> f x)"

text \<open>The body of the order loop after the time filter (lines 96 to 108).\<close>

definition count_order :: "(int \<rightharpoonup> order_agg) \<Rightarrow> pyval \<Rightarrow> exn + (int \<rightharpoonup> order_agg)" where
  "count_order instrument_orders order =
     bind (py_get_default order ''ExchangeInstrumentID'' (PInt 0)) (\<lambda>raw_id.
     bind (py_int raw_id) (\<lambda>inst_id.
       if inst_id = 0 then Inr instrument_orders
       else
         bind (py_get_default order ''OrderStatus'' (PStr [])) (\<lambda>raw_status.
         bind (py_upper raw_status) (\<lambda>status.
         bind (py_get_default order ''OrderQuantity'' (PInt 0)) (\<lambda>raw_quantity.
         bind (py_int raw_quantity) (\<lambda>qty.
           let a = agg_of instrument_orders inst_id in
           if status = ''FILLED'' then
             Inr (instrument_orders(inst_id \<mapsto> a\<lparr>executed := executed a + qty\<rparr>))
           else if status = ''OPEN'' then
             Inr (instrument_orders(inst_id \<mapsto> a\<lparr>open_qty := open_qty a + qty\<rparr>))
           else if status = ''REJECTED'' then
             Inr (instrument_orders(inst_id \<mapsto> a\<lparr>rejected := rejected a + qty\<rparr>))
           else Inr instrument_orders))))))"

text \<open>The body of the \<open>try\<close> of the order loop (lines 92 to 108).\<close>

definition order_body ::
  "(string \<Rightarrow> string \<Rightarrow> 't option) \<Rightarrow> ('t::linorder) \<Rightarrow> (int \<rightharpoonup> order_agg) \<Rightarrow> pyval
     \<Rightarrow> (int \<rightharpoonup> order_agg) logged" where
  "order_body strp order_start_time instrument_orders order =
     on_ok (py_get_default order ''OrderDateTime'' (PStr [])) (\<lambda>ts.
       case parse_order_time strp ts of
         (Inl e, lg) \<Rightarrow> (Inl e, lg)
       | (Inr None, lg) \<Rightarrow> (Inr instrument_orders, lg)
       | (Inr (Some order_time), lg) \<Rightarrow>
           if order_time < order_start_time then (Inr instrument_orders, lg)
           else (count_order instrument_orders order, lg))"

text \<open>One turn of the order loop: the \<open>except\<close> logs and goes on.\<close>

definition order_step ::
  "(string \<Rightarrow> string \<Rightarrow> 't option) \<Rightarrow> string \<Rightarrow> ('t::linorder) \<Rightarrow> (int \<rightharpoonup> order_agg) \<Rightarrow> pyval
     \<Rightarrow> (int \<rightharpoonup> order_agg) \<times> log_msg list" where
  "order_step strp client_id order_start_time instrument_orders order =
     (case order_body strp order_start_time instrument_orders order of
        (Inl e, lg) \<Rightarrow> (instrument_orders, lg @ [OrderError client_id e])
      | (Inr instrument_orders', lg) \<Rightarrow> (instrument_orders', lg))"

fun order_loop ::
  "(string \<Rightarrow> string \<Rightarrow> 't option) \<Rightarrow> string \<Rightarrow> ('t::linorder) \<Rightarrow> pyval list
     \<Rightarrow> (int \<rightharpoonup> order_agg) \<Rightarrow> log_msg list \<Rightarrow> (int \<rightharpoonup> order_agg) \<times> log_msg list" where
  "order_loop strp client_id order_start_time [] instrument_orders lg = (instrument_orders, lg)"
| "order_loop strp client_id order_start_time (order # rest) instrument_orders lg =
     (case order_step strp client_id order_start_time instrument_orders order of
        (instrument_orders', lg') \<Rightarrow>
          order_loop strp client_id order_start_time rest instrument_orders' (lg @ lg'))"

definition process_orders ::
  "(string \<Rightarrow> string \<Rightarrow> 't option) \<Rightarrow> string \<Rightarrow> ('t::linorder) \<Rightarrow> pyval
     \<Rightarrow> (int \<rightharpoonup> order_agg) logged" where
  "process_orders strp client_id order_start_time order_book_response =
     on_ok (py_get order_book_response ''type'') (\<lambda>tag.
       if tag = PStr ''success'' then
         on_ok (py_get_default order_book_response ''result'' (PList [])) (\<lambda>result.
         on_ok (py_iter result) (\<lambda>orders.
           case order_loop strp client_id order_start_time orders Map.empty [] of
             (instrument_orders, lg) \<Rightarrow> (Inr instrument_orders, lg)))
       else (Inr Map.empty, []))"

section \<open>Row builder\<close>

text \<open>
  A key of \<open>total_quantity_to_sell\<close> is an integer or a string; the instrument
  metadata maps an integer id to a record (a dictionary) with a \<open>name\<close>.
\<close>

datatype inst_key = KInt int | KStr string

fun key_int :: "inst_key \<Rightarrow> exn + int" where
  "key_int (KInt i) = Inr i"
| "key_int (KStr s) = py_int (PStr s)"

definition digit_char :: "nat \<Rightarrow> char" where
  "digit_char n = char_of (48 + n)"

fun show_nat :: "nat \<Rightarrow> string" where
  "show_nat n = (if n < 10 then [digit_char n] else show_nat (n div 10) @ [digit_char (n mod 10)])"

declare show_nat.simps [simp del]

text \<open>\<open>str\<close> of an integer raises \<open>ValueError\<close> beyond the same limit of 4300
  digits.\<close>

definition str_int :: "int \<Rightarrow> exn + string" where
  "str_int i =
     (let ds = show_nat (nat \<bar>i\<bar>) in
      if max_str_digits < length ds then Inl ValueError
      else Inr (if i < 0 then CHR ''-'' # ds else ds))"

text \<open>\<open>str(ex_id)\<close>, as the f-strings interpolate it.\<close>

fun key_str :: "inst_key \<Rightarrow> exn + string" where
  "key_str (KInt i) = str_int i"
| "key_str (KStr s) = Inr s"

record summary_row =
  Instrument :: pyval
  Target :: pyval
  Executed :: pyval
  Open :: pyval
  Rejected :: pyval
  Live_Pos :: pyval
  Holding :: pyval
  Remaining :: pyval

text \<open>\<open>holding_qty - orders_data['executed']\<close>: the left operand is whatever the feed
  held, the right one an integer.\<close>

fun py_sub_int :: "pyval \<Rightarrow> int \<Rightarrow> exn + pyval" where
  "py_sub_int (PInt h) e = Inr (PInt (h - e))"
| "py_sub_int (PBool b) e = Inr (PInt ((if b then 1 else 0) - e))"
| "py_sub_int _ e = Inl TypeError"

text \<open>The body of the \<open>try\<close> of the instrument loop (lines 115 to 130).  The
  fallback name \<open>f"ID:{ex_id}"\<close> is an argument of \<open>get\<close>, so it is formatted
  whether or not the metadata knows the instrument.\<close>

definition build_row ::
  "(int \<rightharpoonup> (string \<times> pyval) list) \<Rightarrow> (int \<rightharpoonup> order_agg) \<Rightarrow> (int \<rightharpoonup> position_entry)
     \<Rightarrow> (int \<rightharpoonup> holding_entry) \<Rightarrow> inst_key \<times> pyval \<Rightarrow> exn + summary_row" where
  "build_row stock_details instrument_orders live_positions holdings item =
     (case item of (ex_id, target_qty) \<Rightarrow>
        bind (key_int ex_id) (\<lambda>ex_id_int.
        bind (key_str ex_id) (\<lambda>ex_id_str.
          let stock_name =
                dict_get_default (case stock_details ex_id_int of None \<Rightarrow> [] | Some r \<Rightarrow> r)
                  ''name'' (PStr (''ID:'' @ ex_id_str));
              orders_data =
                (case instrument_orders ex_id_int of None \<Rightarrow> zero_agg | Some a \<Rightarrow> a);
              live_qty =
                (case live_positions ex_id_int of None \<Rightarrow> PInt 0 | Some p \<Rightarrow> quantity p);
              holding_qty =
                (case holdings ex_id_int of None \<Rightarrow> PInt 0 | Some h \<Rightarrow> holding_quantity h)
          in bind (py_sub_int holding_qty (executed orders_data)) (\<lambda>remaining.
               Inr \<lparr>Instrument = stock_name,
                    Target = target_qty,
                    Executed = PInt (executed orders_data),
                    Open = PInt (open_qty orders_data),
                    Rejected = PInt (rejected orders_data),
                    Live_Pos = live_qty,
                    Holding = holding_qty,
                    Remaining = remaining\<rparr>))))"

text \<open>The instrument loop.  The \<open>except\<close> formats \<open>ex_id\<close> into its message: when
  that raises, the exception leaves the handler and the function.\<close>

fun build_rows ::
  "string \<Rightarrow> (int \<rightharpoonup> (string \<times> pyval) list) \<Rightarrow> (int \<rightharpoonup> order_agg) \<Rightarrow> (int \<rightharpoonup> position_entry)
     \<Rightarrow> (int \<rightharpoonup> holding_entry) \<Rightarrow> (inst_key \<times> pyval) list \<Rightarrow> summary_row list \<Rightarrow> log_msg list
     \<Rightarrow> summary_row list logged" where
  "build_rows client_id stock_details instrument_orders live_positions holdings []
     client_summary lg = (Inr client_summary, lg)"
| "build_rows client_id stock_details instrument_orders live_positions holdings (item # rest)
     client_summary lg =
     (case build_row stock_details instrument_orders live_positions holdings item of
        Inr row \<Rightarrow>
          build_rows client_id stock_details instrument_orders live_positions holdings rest
            (client_summary @ [row]) lg
      | Inl e \<Rightarrow>
          (case key_str (fst item) of
             Inl e' \<Rightarrow> (Inl e', lg)
           | Inr ex_id_str \<Rightarrow>
               build_rows client_id stock_details instrument_orders live_positions holdings rest
                 client_summary (lg @ [InstrumentError ex_id_str client_id e])))"

section \<open>Aggregator\<close>

text \<open>
  A client's parameters hold \<open>total_quantity_to_sell\<close>, or not (\<open>None\<close>: the
  \<open>get\<close> defaults to the empty dictionary).  An API handle offers the three calls;
  each returns a response or raises.
\<close>

record client_params =
  total_quantity_to_sell :: "(inst_key \<times> pyval) list option"

record api =
  get_order_book :: "string \<Rightarrow> exn + pyval"
  get_position_daywise :: "string \<Rightarrow> exn + pyval"
  get_holding :: "string \<Rightarrow> exn + pyval"

text \<open>The three calls of the \<open>try\<close> at lines 45 to 48, in their order.\<close>

definition fetch :: "api \<Rightarrow> string \<Rightarrow> exn + (pyval \<times> pyval \<times> pyval)" where
  "fetch a client_id =
     bind (get_order_book a client_id) (\<lambda>order_book_response.
     bind (get_position_daywise a client_id) (\<lambda>pos_response.
     bind (get_holding a client_id) (\<lambda>holding_response.
       Inr (order_book_response, pos_response, holding_response))))"

text \<open>What follows the fetch for one client (lines 53 to 132): the client's rows.\<close>

definition summarize_client ::
  "(string \<Rightarrow> string \<Rightarrow> 't option) \<Rightarrow> ('t::linorder) \<Rightarrow> (int \<rightharpoonup> (string \<times> pyval) list)
     \<Rightarrow> string \<Rightarrow> client_params \<Rightarrow> pyval \<times> pyval \<times> pyval \<Rightarrow> summary_row list logged" where
  "summarize_client strp order_start_time stock_details client_id params responses =
     (case responses of (order_book_response, pos_response, holding_response) \<Rightarrow>
       (case process_positions client_id pos_response of
          (Inl e, lg1) \<Rightarrow> (Inl e, lg1)
        | (Inr live_positions, lg1) \<Rightarrow>
       (case process_holdings client_id holding_response of
          (Inl e, lg2) \<Rightarrow> (Inl e, lg1 @ lg2)
        | (Inr holdings, lg2) \<Rightarrow>
       (case process_orders strp client_id order_start_time order_book_response of
          (Inl e, lg3) \<Rightarrow> (Inl e, lg1 @ lg2 @ lg3)
        | (Inr instrument_orders, lg3) \<Rightarrow>
       (case build_rows client_id stock_details instrument_orders live_positions holdings
               (case total_quantity_to_sell params of None \<Rightarrow> [] | Some items \<Rightarrow> items) [] [] of
          (r, lg4) \<Rightarrow> (r, lg1 @ lg2 @ lg3 @ lg4))))))"

text \<open>One turn of the client loop: \<open>Inr None\<close> is the \<open>continue\<close> of a skipped
  client, \<open>Inr (Some rows)\<close> the rows stored under the client's id.\<close>

definition process_client ::
  "(string \<Rightarrow> string \<Rightarrow> 't option) \<Rightarrow> ('t::linorder) \<Rightarrow> (int \<rightharpoonup> (string \<times> pyval) list)
     \<Rightarrow> (string \<rightharpoonup> api) \<Rightarrow> string \<times> client_params \<Rightarrow> summary_row list option logged" where
  "process_client strp order_start_time stock_details client_apis client =
     (case client of (client_id, params) \<Rightarrow>
       (case client_apis client_id of
          None \<Rightarrow> (Inr None, [ApiNotFound client_id])
        | Some a \<Rightarrow>
            (case fetch a client_id of
               Inl e \<Rightarrow> (Inr None, [FetchError client_id e])
             | Inr responses \<Rightarrow>
                 (case summarize_client strp order_start_time stock_details client_id params
                         responses of
                    (Inl e, lg) \<Rightarrow> (Inl e, lg)
                  | (Inr client_summary, lg) \<Rightarrow> (Inr (Some client_summary), lg)))))"

text \<open>\<open>summary_data[client_id] = client_summary\<close> on a dictionary in insertion order.\<close>

fun dict_set :: "('k \<times> 'v) list \<Rightarrow> 'k \<Rightarrow> 'v \<Rightarrow> ('k \<times> 'v) list" where
  "dict_set [] k v = [(k, v)]"
| "dict_set (p # ps) k v = (if fst p = k then (k, v) # ps else p # dict_set ps k v)"

fun client_loop ::
  "(string \<Rightarrow> string \<Rightarrow> 't option) \<Rightarrow> ('t::linorder) \<Rightarrow> (int \<rightharpoonup> (string \<times> pyval) list)
     \<Rightarrow> (string \<rightharpoonup> api) \<Rightarrow> (string \<times> client_params) list
     \<Rightarrow> (string \<times> summary_row list) list \<Rightarrow> log_msg list
     \<Rightarrow> (string \<times> summary_row list) list logged" where
  "client_loop strp order_start_time stock_details client_apis [] summary_data lg =
     (Inr summary_data, lg)"
| "client_loop strp order_start_time stock_details client_apis (client # rest) summary_data lg =
     (case process_client strp order_start_time stock_details client_apis client of
        (Inl e, lg') \<Rightarrow> (Inl e, lg @ lg')
      | (Inr None, lg') \<Rightarrow>
          client_loop strp order_start_time stock_details client_apis rest summary_data (lg @ lg')
      | (Inr (Some client_summary), lg') \<Rightarrow>
          client_loop strp order_start_time stock_details client_apis rest
            (dict_set summary_data (fst client) client_summary) (lg @ lg'))"

definition generate_summary_data_sell ::
  "(string \<Rightarrow> string \<Rightarrow> 't option) \<Rightarrow> (string \<times> client_params) list \<Rightarrow> ('t::linorder)
     \<Rightarrow> (int \<rightharpoonup> (string \<times> pyval) list) \<Rightarrow> (string \<rightharpoonup> api)
     \<Rightarrow> (string \<times> summary_row list) list logged" where
  "generate_summary_data_sell strp client_details order_start_time stock_details client_apis =
     client_loop strp order_start_time stock_details client_apis client_details [] []"

section \<open>Report renderer\<close>

text \<open>
  The sheet of one client: the frame of its rows with the totals row appended, under the
  client's id cut to 31 characters.  \<open>Series.sum\<close> belongs to pandas: it is the
  parameter \<open>series_sum\<close>.  Every row of the aggregator has all eight keys, so the
  frame of a non-empty row list has the eight columns, and the frame of the empty list
  has none: there \<open>df['Target']\<close> raises \<open>KeyError\<close>.

  The writer and its workbook belong to pandas and openpyxl.  What the library calls of
  lines 166 to 194 do for one sheet (\<open>to_excel\<close>, the lookup of the worksheet, the
  styling and the column widths) is the parameter \<open>to_excel\<close>: from the writer, the
  sheet name and the frame it gives the writer after the calls, or the exception they
  raise (a title that the workbook refuses, for one).  Two clients whose identifiers agree
  on the first 31 characters are written under the same sheet name, and what the workbook
  keeps then is the library's matter.  Saving the file when the \<open>with\<close> block is left
  is not modelled.
\<close>

definition desired_columns :: "string list" where
  "desired_columns =
     [''Instrument'', ''Target'', ''Executed'', ''Open'', ''Rejected'', ''Live Pos'', ''Holding'',
      ''Remaining'']"

definition frame_columns :: "summary_row list \<Rightarrow> string list" where
  "frame_columns instruments = (if instruments = [] then [] else desired_columns)"

definition column :: "summary_row list \<Rightarrow> string \<Rightarrow> (summary_row \<Rightarrow> pyval) \<Rightarrow> exn + pyval list" where
  "column instruments name field =
     (if name \<in> set (frame_columns instruments) then Inr (map field instruments)
      else Inl (KeyError name))"

definition total_row ::
  "(pyval list \<Rightarrow> exn + pyval) \<Rightarrow> summary_row list \<Rightarrow> exn + summary_row" where
  "total_row series_sum instruments =
     bind (bind (column instruments ''Target'' Target) series_sum) (\<lambda>target.
     bind (bind (column instruments ''Executed'' Executed) series_sum) (\<lambda>executed_total.
     bind (bind (column instruments ''Open'' Open) series_sum) (\<lambda>open_total.
     bind (bind (column instruments ''Rejected'' Rejected) series_sum) (\<lambda>rejected_total.
     bind (bind (column instruments ''Live Pos'' Live_Pos) series_sum) (\<lambda>live_total.
     bind (bind (column instruments ''Holding'' Holding) series_sum) (\<lambda>holding_total.
     bind (bind (column instruments ''Remaining'' Remaining) series_sum) (\<lambda>remaining_total.
       Inr \<lparr>Instrument = PStr ''TOTAL'',
            Target = target,
            Executed = executed_total,
            Open = open_total,
            Rejected = rejected_total,
            Live_Pos = live_total,
            Holding = holding_total,
            Remaining = remaining_total\<rparr>)))))))"

text \<open>The loop over the clients; an exception leaves the \<open>with\<close> block and ends
  the export.\<close>

fun export_loop ::
  "(pyval list \<Rightarrow> exn + pyval) \<Rightarrow> ('w \<Rightarrow> string \<Rightarrow> summary_row list \<Rightarrow> exn + 'w)
     \<Rightarrow> (string \<times> summary_row list) list \<Rightarrow> 'w \<Rightarrow> exn + 'w" where
  "export_loop series_sum to_excel [] writer = Inr writer"
| "export_loop series_sum to_excel ((client, instruments) # rest) writer =
     (case total_row series_sum instruments of
        Inl e \<Rightarrow> Inl e
      | Inr totals \<Rightarrow>
          (case to_excel writer (take 31 client) (instruments @ [totals]) of
             Inl e \<Rightarrow> Inl e
           | Inr writer' \<Rightarrow> export_loop series_sum to_excel rest writer'))"

text \<open>\<open>writer\<close> is the writer that \<open>pd.ExcelWriter\<close> returns for the file.\<close>

definition export_summary_to_excel_sell ::
  "(pyval list \<Rightarrow> exn + pyval) \<Rightarrow> ('w \<Rightarrow> string \<Rightarrow> summary_row list \<Rightarrow> exn + 'w) \<Rightarrow> 'w
     \<Rightarrow> (string \<times> summary_row list) list \<Rightarrow> exn + 'w" where
  "export_summary_to_excel_sell series_sum to_excel writer summary_data =
     export_loop series_sum to_excel summary_data writer"

text \<open>The entry function: the aggregator, then the renderer on its result.\<close>

definition generate_excel_summary_sell ::
  "(pyval list \<Rightarrow> exn + pyval) \<Rightarrow> ('w \<Rightarrow> string \<Rightarrow> summary_row list \<Rightarrow> exn + 'w) \<Rightarrow> 'w
     \<Rightarrow> (string \<Rightarrow> string \<Rightarrow> 't option) \<Rightarrow> (string \<times> client_params) list
     \<Rightarrow> ('t::linorder) \<Rightarrow> (int \<rightharpoonup> (string \<times> pyval) list) \<Rightarrow> (string \<rightharpoonup> api)
     \<Rightarrow> 'w logged" where
  "generate_excel_summary_sell series_sum to_excel writer strp client_details order_start_time
     stock_details client_apis =
     (case generate_summary_data_sell strp client_details order_start_time stock_details
             client_apis of
        (Inl e, lg) \<Rightarrow> (Inl e, lg)
      | (Inr summary_data, lg) \<Rightarrow>
          (export_summary_to_excel_sell series_sum to_excel writer summary_data, lg))"

section \<open>Reference notions for the properties\<close>

text \<open>
  The timestamp of an order as the loop reads it: the parse of its \<open>OrderDateTime\<close>,
  when the order is a dictionary and the field a string that one of the formats parses.
\<close>

definition order_time_of :: "(string \<Rightarrow> string \<Rightarrow> 't option) \<Rightarrow> pyval \<Rightarrow> 't option" where
  "order_time_of strp order =
     (case order of
        PDict d \<Rightarrow>
          (case dict_get_default d ''OrderDateTime'' (PStr []) of
             PStr ts_str \<Rightarrow> try_formats strp ts_str formats
           | _ \<Rightarrow> None)
      | _ \<Rightarrow> None)"

text \<open>An order is in the window when its timestamp parses to a time at or after the
  cutoff.\<close>

definition in_window :: "(string \<Rightarrow> string \<Rightarrow> 't option) \<Rightarrow> ('t::linorder) \<Rightarrow> pyval \<Rightarrow> bool" where
  "in_window strp order_start_time order =
     (case order_time_of strp order of None \<Rightarrow> False | Some t \<Rightarrow> order_start_time \<le> t)"

text \<open>
  What an order, taken alone, adds to the aggregate \<open>field\<close> of instrument \<open>i\<close>:
  the value \<open>count_order\<close> records for it on the empty \<open>defaultdict\<close>, zero when
  \<open>count_order\<close> raises.
\<close>

definition added :: "(order_agg \<Rightarrow> int) \<Rightarrow> int \<Rightarrow> pyval \<Rightarrow> int" where
  "added field i order =
     (case count_order Map.empty order of Inl e \<Rightarrow> 0 | Inr m \<Rightarrow> field (agg_of m i))"

text \<open>
  \<open>count_order\<close> in two steps, reading the three fields of the order and then updating
  the aggregates; lemma \<open>count_order_fields\<close> below shows that this is what
  \<open>count_order\<close> computes.
\<close>

definition order_fields :: "pyval \<Rightarrow> exn + (int \<times> string \<times> int) option" where
  "order_fields order =
     bind (py_get_default order ''ExchangeInstrumentID'' (PInt 0)) (\<lambda>raw_id.
     bind (py_int raw_id) (\<lambda>inst_id.
       if inst_id = 0 then Inr None
       else
         bind (py_get_default order ''OrderStatus'' (PStr [])) (\<lambda>raw_status.
         bind (py_upper raw_status) (\<lambda>status.
         bind (py_get_default order ''OrderQuantity'' (PInt 0)) (\<lambda>raw_quantity.
         bind (py_int raw_quantity) (\<lambda>qty. Inr (Some (inst_id, status, qty))))))))"

definition apply_fields :: "(int \<rightharpoonup> order_agg) \<Rightarrow> int \<times> string \<times> int \<Rightarrow> (int \<rightharpoonup> order_agg)" where
  "apply_fields instrument_orders f =
     (case f of (inst_id, status, qty) \<Rightarrow>
        let a = agg_of instrument_orders inst_id in
        if status = ''FILLED'' then instrument_orders(inst_id \<mapsto> a\<lparr>executed := executed a + qty\<rparr>)
        else if status = ''OPEN'' then instrument_orders(inst_id \<mapsto> a\<lparr>open_qty := open_qty a + qty\<rparr>)
        else if status = ''REJECTED'' then instrument_orders(inst_id \<mapsto> a\<lparr>rejected := rejected a + qty\<rparr>)
        else instrument_orders)"

text \<open>The pairs of a client's target configuration, as the instrument loop reads them:
  \<open>params.get('total_quantity_to_sell', {}).items()\<close>.\<close>

definition target_items :: "client_params \<Rightarrow> (inst_key \<times> pyval) list" where
  "target_items params =
     (case total_quantity_to_sell params of None \<Rightarrow> [] | Some items \<Rightarrow> items)"

text \<open>
  The integer instruments of a target configuration, and the feeds without the activity
  of other instruments: an order that \<open>count_order\<close> would count under an instrument
  that is not configured is removed from the order book, and so is a position or holding
  record whose id coerces to such an instrument.  Everything else stays as it is.
\<close>

definition configured_ids :: "(inst_key \<times> pyval) list \<Rightarrow> int list" where
  "configured_ids items =
     List.map_filter (\<lambda>item. case key_int (fst item) of Inl e \<Rightarrow> None | Inr i \<Rightarrow> Some i) items"

definition order_instrument :: "pyval \<Rightarrow> int option" where
  "order_instrument order =
     (case order_fields order of Inr (Some f) \<Rightarrow> Some (fst f) | _ \<Rightarrow> None)"

definition id_instrument :: "pyval \<Rightarrow> int option" where
  "id_instrument inst_id =
     (if truthy inst_id then (case py_int inst_id of Inl e \<Rightarrow> None | Inr i \<Rightarrow> Some i) else None)"

definition position_instrument :: "pyval \<Rightarrow> int option" where
  "position_instrument pos =
     (case pos of PDict d \<Rightarrow> id_instrument (position_inst_id d) | _ \<Rightarrow> None)"

definition holding_instrument :: "pyval \<Rightarrow> int option" where
  "holding_instrument holding =
     (case holding of PDict d \<Rightarrow> id_instrument (holding_inst_id d) | _ \<Rightarrow> None)"

definition other_instrument :: "int list \<Rightarrow> int option \<Rightarrow> bool" where
  "other_instrument ids inst = (case inst of None \<Rightarrow> False | Some i \<Rightarrow> i \<notin> set ids)"

fun map_entry :: "string \<Rightarrow> (pyval \<Rightarrow> pyval) \<Rightarrow> pyval \<Rightarrow> pyval" where
  "map_entry k f (PDict d) = PDict (map (\<lambda>kv. if fst kv = k then (fst kv, f (snd kv)) else kv) d)"
| "map_entry k f v = v"

fun filter_list :: "(pyval \<Rightarrow> bool) \<Rightarrow> pyval \<Rightarrow> pyval" where
  "filter_list keep (PList xs) = PList (filter keep xs)"
| "filter_list keep v = v"

fun filter_values :: "(pyval \<Rightarrow> bool) \<Rightarrow> pyval \<Rightarrow> pyval" where
  "filter_values keep (PDict d) = PDict (filter (\<lambda>kv. keep (snd kv)) d)"
| "filter_values keep v = v"

definition configured_order_book :: "int list \<Rightarrow> pyval \<Rightarrow> pyval" where
  "configured_order_book ids =
     map_entry ''result''
       (filter_list (\<lambda>order. \<not> other_instrument ids (order_instrument order)))"

definition configured_positions :: "int list \<Rightarrow> pyval \<Rightarrow> pyval" where
  "configured_positions ids =
     map_entry ''result'' (map_entry ''positionList''
       (filter_list (\<lambda>pos. \<not> other_instrument ids (position_instrument pos))))"

definition configured_holdings :: "int list \<Rightarrow> pyval \<Rightarrow> pyval" where
  "configured_holdings ids =
     map_entry ''result'' (map_entry ''RMSHoldings'' (map_entry ''Holdings''
       (filter_values (\<lambda>holding. \<not> other_instrument ids (holding_instrument holding)))))"

text \<open>A handle that answers as \<open>a\<close> does, its three feeds without the activity of
  instruments that are not in \<open>ids\<close>; a call that raises still raises.\<close>

definition configured_api :: "int list \<Rightarrow> api \<Rightarrow> api" where
  "configured_api ids a =
     \<lparr>get_order_book =
        (\<lambda>client_id. map_sum id (configured_order_book ids) (get_order_book a client_id)),
      get_position_daywise =
        (\<lambda>client_id. map_sum id (configured_positions ids) (get_position_daywise a client_id)),
      get_holding =
        (\<lambda>client_id. map_sum id (configured_holdings ids) (get_holding a client_id))\<rparr>"

text \<open>Two outcomes of a feed normalizer agree on a set of instruments when both raise the
  same exception, or both return a map and the maps give these instruments the same
  aggregates (\<open>view\<close> reads a map at an instrument).\<close>

definition agree_on ::
  "int set \<Rightarrow> ((int \<rightharpoonup> 'a) \<Rightarrow> int \<Rightarrow> 'b) \<Rightarrow> exn + (int \<rightharpoonup> 'a) \<Rightarrow> exn + (int \<rightharpoonup> 'a) \<Rightarrow> bool" where
  "agree_on S view r r' =
     (case r of
        Inl e \<Rightarrow> r' = Inl e
      | Inr m \<Rightarrow> (case r' of Inl e \<Rightarrow> False | Inr m' \<Rightarrow> (\<forall>i \<in> S. view m' i = view m i)))"

text \<open>The row of a configured entry, if the row builder builds one, and the message of
  the instrument loop for it, if it does not.\<close>

definition row_of ::
  "(int \<rightharpoonup> (string \<times> pyval) list) \<Rightarrow> (int \<rightharpoonup> order_agg) \<Rightarrow> (int \<rightharpoonup> position_entry)
     \<Rightarrow> (int \<rightharpoonup> holding_entry) \<Rightarrow> inst_key \<times> pyval \<Rightarrow> summary_row option" where
  "row_of stock_details instrument_orders live_positions holdings item =
     (case build_row stock_details instrument_orders live_positions holdings item of
        Inl e \<Rightarrow> None
      | Inr row \<Rightarrow> Some row)"

definition message_of ::
  "string \<Rightarrow> (int \<rightharpoonup> (string \<times> pyval) list) \<Rightarrow> (int \<rightharpoonup> order_agg) \<Rightarrow> (int \<rightharpoonup> position_entry)
     \<Rightarrow> (int \<rightharpoonup> holding_entry) \<Rightarrow> inst_key \<times> pyval \<Rightarrow> log_msg option" where
  "message_of client_id stock_details instrument_orders live_positions holdings item =
     (case build_row stock_details instrument_orders live_positions holdings item of
        Inl e \<Rightarrow>
          (case key_str (fst item) of
             Inl e' \<Rightarrow> None
           | Inr ex_id_str \<Rightarrow> Some (InstrumentError ex_id_str client_id e))
      | Inr row \<Rightarrow> None)"

section \<open>Example data\<close>

text \<open>
  A point in time as year, month, day, hour, minute, second and microsecond, ordered
  lexicographically, and what \<open>strptime\<close> returns on the timestamps of the examples.
\<close>

type_synonym datetime = "nat \<times> nat \<times> nat \<times> nat \<times> nat \<times> nat \<times> nat"

definition example_strptime :: "string \<Rightarrow> string \<Rightarrow> datetime option" where
  "example_strptime ts_str fmt =
     map_of
       [((''2024-02-13 10:30:00'', ''%Y-%m-%d %H:%M:%S''), (2024, 2, 13, 10, 30, 0, 0)),
        ((''13-Feb-2024 10:30:00'', ''%d-%b-%Y %H:%M:%S''), (2024, 2, 13, 10, 30, 0, 0)),
        ((''2024-02-13 09:15:00'', ''%Y-%m-%d %H:%M:%S''), (2024, 2, 13, 9, 15, 0, 0)),
        ((''2024-02-13 09:14:59'', ''%Y-%m-%d %H:%M:%S''), (2024, 2, 13, 9, 14, 59, 0))]
       (ts_str, fmt)"

definition example_cutoff :: datetime where
  "example_cutoff = (2024, 2, 13, 9, 15, 0, 0)"

text \<open>Well-formed responses of the three feeds with nothing in them, and a handle
  that returns them.\<close>

definition empty_order_book :: pyval where
  "empty_order_book = PDict [(''type'', PStr ''success''), (''result'', PList [])]"

definition empty_positions :: pyval where
  "empty_positions =
     PDict [(''type'', PStr ''success''), (''result'', PDict [(''positionList'', PList [])])]"

definition empty_holdings :: pyval where
  "empty_holdings =
     PDict [(''type'', PStr ''success''),
            (''result'', PDict [(''RMSHoldings'', PDict [(''Holdings'', PDict [])])])]"

definition quiet_api :: api where
  "quiet_api =
     \<lparr>get_order_book = (\<lambda>client_id. Inr empty_order_book),
      get_position_daywise = (\<lambda>client_id. Inr empty_positions),
      get_holding = (\<lambda>client_id. Inr empty_holdings)\<rparr>"

text \<open>A holdings response tagged \<open>success\<close> whose result lacks \<open>RMSHoldings\<close>.\<close>

definition bare_holdings :: pyval where
  "bare_holdings = PDict [(''type'', PStr ''success''), (''result'', PDict [])]"

definition bare_holdings_api :: api where
  "bare_holdings_api = quiet_api\<lparr>get_holding := (\<lambda>client_id. Inr bare_holdings)\<rparr>"

text \<open>A positions response with one record whose \<open>Quantity\<close> is no number, and
  records without an instrument id.\<close>

definition text_quantity_positions :: pyval where
  "text_quantity_positions =
     PDict [(''type'', PStr ''success''),
            (''result'', PDict [(''positionList'',
               PList [PDict [(''ExchangeInstrumentID'', PInt 100), (''Quantity'', PStr ''abc'')]])])]"

definition zero_id_order :: "(string \<times> pyval) list" where
  "zero_id_order =
     [(''OrderDateTime'', PStr ''2024-02-13 10:30:00''), (''ExchangeInstrumentID'', PStr ''0''),
      (''OrderStatus'', PStr ''FILLED''), (''OrderQuantity'', PInt 5)]"

definition zero_id_position :: "(string \<times> pyval) list" where
  "zero_id_position = [(''ExchangeInstrumentID'', PInt 0), (''Quantity'', PInt 5)]"

definition empty_id_holding :: "(string \<times> pyval) list" where
  "empty_id_holding = [(''ExchangeNSEInstrumentID'', PStr []), (''HoldingQuantity'', PInt 5)]"

definition text_quantity_position :: "(string \<times> pyval) list" where
  "text_quantity_position = [(''ExchangeInstrumentID'', PInt 100), (''Quantity'', PStr ''abc'')]"

definition text_id_position :: "(string \<times> pyval) list" where
  "text_id_position = [(''ExchangeInstrumentID'', PStr ''x1''), (''Quantity'', PInt 5)]"

definition bare_holding :: "(string \<times> pyval) list" where
  "bare_holding = [(''ExchangeNSEInstrumentId'', PStr ''100'')]"

text \<open>The example of the specification: one \<open>FILLED\<close> order of 20 for instrument
  100 after the cutoff, a holding of 80, and the target 50; and the same holding with its
  quantity as text.\<close>

definition one_filled_order_book :: pyval where
  "one_filled_order_book =
     PDict [(''type'', PStr ''success''),
            (''result'',
             PList [PDict [(''OrderDateTime'', PStr ''2024-02-13 10:30:00''),
                           (''ExchangeInstrumentID'', PInt 100),
                           (''OrderStatus'', PStr ''FILLED''),
                           (''OrderQuantity'', PInt 20)]])]"

definition holdings_of :: "pyval \<Rightarrow> pyval" where
  "holdings_of qty =
     PDict [(''type'', PStr ''success''),
            (''result'',
             PDict [(''RMSHoldings'',
               PDict [(''Holdings'',
                 PDict [(''INE001'',
                   PDict [(''ExchangeNSEInstrumentID'', PInt 100),
                          (''HoldingQuantity'', qty),
                          (''BuyAvgPrice'', PInt 10)])])])])]"

definition example_params :: client_params where
  "example_params = \<lparr>total_quantity_to_sell = Some [(KInt 100, PInt 50)]\<rparr>"

text \<open>Three orders for instrument 100: one second before the cutoff, at the cutoff,
  and after it.\<close>

definition example_orders :: "pyval list" where
  "example_orders =
     [PDict [(''OrderDateTime'', PStr ''2024-02-13 09:14:59''), (''ExchangeInstrumentID'', PInt 100),
             (''OrderStatus'', PStr ''FILLED''), (''OrderQuantity'', PInt 7)],
      PDict [(''OrderDateTime'', PStr ''2024-02-13 09:15:00''), (''ExchangeInstrumentID'', PInt 100),
             (''OrderStatus'', PStr ''FILLED''), (''OrderQuantity'', PInt 20)],
      PDict [(''OrderDateTime'', PStr ''2024-02-13 10:30:00''), (''ExchangeInstrumentID'', PStr ''100''),
             (''OrderStatus'', PStr ''Open''), (''OrderQuantity'', PInt 5)]]"

text \<open>A handle whose positions call raises.\<close>

definition failing_positions_api :: api where
  "failing_positions_api =
     quiet_api\<lparr>get_position_daywise := (\<lambda>client_id. Inl (ApiError ''timeout''))\<rparr>"

text \<open>A handle that answers with the example feeds, the holding quantity as given; the
  row of the example; and a configuration with a second key that is no number.\<close>

definition example_api :: "pyval \<Rightarrow> api" where
  "example_api qty =
     \<lparr>get_order_book = (\<lambda>client_id. Inr one_filled_order_book),
      get_position_daywise = (\<lambda>client_id. Inr empty_positions),
      get_holding = (\<lambda>client_id. Inr (holdings_of qty))\<rparr>"

definition example_row :: summary_row where
  "example_row =
     \<lparr>Instrument = PStr ''ID:100'', Target = PInt 50, Executed = PInt 20, Open = PInt 0,
      Rejected = PInt 0, Live_Pos = PInt 0, Holding = PInt 80, Remaining = PInt 60\<rparr>"

definition two_key_params :: client_params where
  "two_key_params = \<lparr>total_quantity_to_sell = Some [(KInt 100, PInt 50), (KStr ''abc'', PInt 5)]\<rparr>"

text \<open>An order book with a second order, for instrument 200 that nobody configured.\<close>

definition two_instrument_order_book :: pyval where
  "two_instrument_order_book =
     PDict [(''type'', PStr ''success''),
            (''result'',
             PList [PDict [(''OrderDateTime'', PStr ''2024-02-13 10:30:00''),
                           (''ExchangeInstrumentID'', PInt 100),
                           (''OrderStatus'', PStr ''FILLED''),
                           (''OrderQuantity'', PInt 20)],
                    PDict [(''OrderDateTime'', PStr ''2024-02-13 10:30:00''),
                           (''ExchangeInstrumentID'', PInt 200),
                           (''OrderStatus'', PStr ''FILLED''),
                           (''OrderQuantity'', PInt 9)]])]"

text \<open>A handle that answers with this order book and the example's holding of 80.\<close>

definition two_instrument_api :: api where
  "two_instrument_api =
     \<lparr>get_order_book = (\<lambda>client_id. Inr two_instrument_order_book),
      get_position_daywise = (\<lambda>client_id. Inr empty_positions),
      get_holding = (\<lambda>client_id. Inr (holdings_of (PInt 80)))\<rparr>"

text \<open>Stand-ins for the library in the examples: the sum of a column of integers
  (anything else in a column is not needed here: \<open>TypeError\<close>), and a writer that only
  records the calls made on it, as the list of sheet names and frames.\<close>

fun cell_ints :: "pyval list \<Rightarrow> int list option" where
  "cell_ints [] = Some []"
| "cell_ints (PInt i # cells) = map_option ((#) i) (cell_ints cells)"
| "cell_ints (_ # cells) = None"

definition integer_sum :: "pyval list \<Rightarrow> exn + pyval" where
  "integer_sum cells =
     (case cell_ints cells of None \<Rightarrow> Inl TypeError | Some is \<Rightarrow> Inr (PInt (sum_list is)))"

definition recording_to_excel ::
  "(string \<times> summary_row list) list \<Rightarrow> string \<Rightarrow> summary_row list
     \<Rightarrow> exn + (string \<times> summary_row list) list" where
  "recording_to_excel writer sheet_name frame = Inr (writer @ [(sheet_name, frame)])"


section \<open>Timestamp normalizer: the first matching format\<close>

lemma find_strp:
  "List.find (\<lambda>fmt. strp s fmt \<noteq> None) fs = Some x \<Longrightarrow> strp s x \<noteq> None"
  by (induction fs) (auto split: if_splits)

lemma try_formats_find:
  "try_formats strp s fs =
     (case List.find (\<lambda>fmt. strp s fmt \<noteq> None) fs of None \<Rightarrow> None | Some fmt \<Rightarrow> strp s fmt)"
  by (induction fs) (auto split: option.splits)

lemma parse_order_time_find:
  "parse_order_time strp (PStr s) =
     (case List.find (\<lambda>fmt. strp s fmt \<noteq> None) formats of
        None \<Rightarrow> (Inr None, [TimestampWarning s])
      | Some fmt \<Rightarrow> (Inr (strp s fmt), []))"
  using find_strp [of strp s formats] try_formats_find [of strp s formats]
  by (auto split: option.splits)

text \<open>
  C5.  For every timestamp string, \<open>parse_order_time\<close> returns what the first of the
  five formats, in their fixed order, that parses the string gives; when none of the
  five parses it, the result is \<open>None\<close> and exactly one warning is logged.
\<close>

theorem parse_order_time_first_match:
  "parse_order_time strp (PStr ts_str) =
     (case List.find (\<lambda>fmt. strp ts_str fmt \<noteq> None)
             [''%Y-%m-%d %H:%M:%S.%f'', ''%Y-%m-%d %H:%M:%S'', ''%d-%m-%Y %H:%M:%S'',
              ''%m/%d/%Y %H:%M:%S'', ''%d-%b-%Y %H:%M:%S''] of
        None \<Rightarrow> (Inr None, [TimestampWarning ts_str])
      | Some fmt \<Rightarrow> (Inr (strp ts_str fmt), []))"
  using parse_order_time_find [of strp ts_str] unfolding formats_def .



theorem parse_order_time_first_match_witness:
  "parse_order_time example_strptime (PStr ''13-Feb-2024 10:30:00'') =
     (Inr (Some (2024, 2, 13, 10, 30, 0, 0)), []) \<and>
   parse_order_time example_strptime (PStr ''yesterday'') =
     (Inr None, [TimestampWarning ''yesterday''])"
  using parse_order_time_first_match [of example_strptime "''13-Feb-2024 10:30:00''"]
    parse_order_time_first_match [of example_strptime "''yesterday''"]
  by (simp add: example_strptime_def)

lemma count_order_fields:
  "count_order io ord =
     (case order_fields ord of
        Inl e \<Rightarrow> Inl e
      | Inr None \<Rightarrow> Inr io
      | Inr (Some f) \<Rightarrow> Inr (apply_fields io f))"
  unfolding count_order_def order_fields_def apply_fields_def bind_def Let_def
  by (simp split: sum.split)

lemma agg_of_empty: "agg_of Map.empty j = zero_agg"
  by (simp add: agg_of_def)

lemma agg_of_upd: "agg_of (m(i \<mapsto> a)) j = (if j = i then a else agg_of m j)"
  by (simp add: agg_of_def)

lemma apply_fields_add:
  "executed (agg_of (apply_fields io f) j) =
     executed (agg_of io j) + executed (agg_of (apply_fields Map.empty f) j) \<and>
   open_qty (agg_of (apply_fields io f) j) =
     open_qty (agg_of io j) + open_qty (agg_of (apply_fields Map.empty f) j) \<and>
   rejected (agg_of (apply_fields io f) j) =
     rejected (agg_of io j) + rejected (agg_of (apply_fields Map.empty f) j)"
proof -
  obtain i st q where f: "f = (i, st, q)" by (cases f)
  show ?thesis
    unfolding f apply_fields_def
    by (simp add: Let_def agg_of_upd agg_of_empty zero_agg_def)
qed

lemma order_step_fst:
  "fst (order_step strp cid cutoff io ord) =
     (if in_window strp cutoff ord then
        (case order_fields ord of Inr (Some f) \<Rightarrow> apply_fields io f | _ \<Rightarrow> io)
      else io)"
proof (cases ord)
  case (PDict d)
  show ?thesis
  proof (cases "dict_get_default d ''OrderDateTime'' (PStr [])")
    case (PStr s)
    show ?thesis
    proof (cases "try_formats strp s formats")
      case None
      then show ?thesis
        using PDict PStr
        by (simp add: order_step_def order_body_def on_ok_def in_window_def order_time_of_def)
    next
      case (Some t)
      then show ?thesis
        using PDict PStr
        by (cases "t < cutoff")
          (auto simp add: order_step_def order_body_def on_ok_def in_window_def order_time_of_def
            count_order_fields not_less split: sum.split option.split)
    qed
  qed (use PDict in \<open>simp_all add: order_step_def order_body_def on_ok_def in_window_def order_time_of_def\<close>)
qed (simp_all add: order_step_def order_body_def on_ok_def in_window_def order_time_of_def)

lemma added_fields:
  "added field i ord =
     (case order_fields ord of Inr (Some f) \<Rightarrow> field (agg_of (apply_fields Map.empty f) i)
      | Inr None \<Rightarrow> field zero_agg | Inl e \<Rightarrow> 0)"
  by (simp add: added_def count_order_fields agg_of_empty split: sum.split option.split)

lemma order_step_executed:
  "executed (agg_of (fst (order_step strp cid cutoff io ord)) j) =
     executed (agg_of io j) + (if in_window strp cutoff ord then added executed j ord else 0)"
  using apply_fields_add [of io _ j]
  by (simp add: order_step_fst added_fields zero_agg_def split: sum.split option.split)

lemma order_step_open:
  "open_qty (agg_of (fst (order_step strp cid cutoff io ord)) j) =
     open_qty (agg_of io j) + (if in_window strp cutoff ord then added open_qty j ord else 0)"
  using apply_fields_add [of io _ j]
  by (simp add: order_step_fst added_fields zero_agg_def split: sum.split option.split)

lemma order_step_rejected:
  "rejected (agg_of (fst (order_step strp cid cutoff io ord)) j) =
     rejected (agg_of io j) + (if in_window strp cutoff ord then added rejected j ord else 0)"
  using apply_fields_add [of io _ j]
  by (simp add: order_step_fst added_fields zero_agg_def split: sum.split option.split)

lemma order_loop_sums:
  "executed (agg_of (fst (order_loop strp cid cutoff orders io lg)) j) =
     executed (agg_of io j) + sum_list (map (added executed j) (filter (in_window strp cutoff) orders)) \<and>
   open_qty (agg_of (fst (order_loop strp cid cutoff orders io lg)) j) =
     open_qty (agg_of io j) + sum_list (map (added open_qty j) (filter (in_window strp cutoff) orders)) \<and>
   rejected (agg_of (fst (order_loop strp cid cutoff orders io lg)) j) =
     rejected (agg_of io j) + sum_list (map (added rejected j) (filter (in_window strp cutoff) orders))"
proof (induction orders arbitrary: io lg)
  case Nil
  show ?case by simp
next
  case (Cons ord orders)
  obtain io' lg' where st: "order_step strp cid cutoff io ord = (io', lg')"
    by (cases "order_step strp cid cutoff io ord")
  have io': "io' = fst (order_step strp cid cutoff io ord)" using st by simp
  show ?case
    using Cons.IH [of io' "lg @ lg'"]
      order_step_executed [of strp cid cutoff io ord j]
      order_step_open [of strp cid cutoff io ord j]
      order_step_rejected [of strp cid cutoff io ord j]
    by (simp add: st io' [symmetric])
qed

lemma int_of_string_100: "int_of_string ''100'' = Some 100"
  by (simp add: int_of_string_def unsigned_of_string_def max_str_digits_def strip_def is_space_def is_digit_def digit_val_def)

lemma example_times:
  "try_formats example_strptime ''2024-02-13 09:14:59'' formats = Some (2024, 2, 13, 9, 14, 59, 0)"
  "try_formats example_strptime ''2024-02-13 09:15:00'' formats = Some (2024, 2, 13, 9, 15, 0, 0)"
  "try_formats example_strptime ''2024-02-13 10:30:00'' formats = Some (2024, 2, 13, 10, 30, 0, 0)"
  by (simp_all add: formats_def example_strptime_def)

text \<open>
  C4.  An order with a parsable timestamp is counted if and only if its timestamp is at
  or after the cutoff: the executed, open and rejected sums of every instrument are the
  sums, over the orders whose timestamp parses to a time \<open>t\<close> with
  \<open>order_start_time \<le> t\<close>, of what the order carries for that instrument.
\<close>

theorem orders_counted_from_cutoff:
  "executed (agg_of (fst (order_loop strp client_id order_start_time orders Map.empty [])) i) =
     sum_list (map (added executed i)
       (filter (\<lambda>order. case order_time_of strp order of None \<Rightarrow> False
                         | Some t \<Rightarrow> order_start_time \<le> t) orders)) \<and>
   open_qty (agg_of (fst (order_loop strp client_id order_start_time orders Map.empty [])) i) =
     sum_list (map (added open_qty i)
       (filter (\<lambda>order. case order_time_of strp order of None \<Rightarrow> False
                         | Some t \<Rightarrow> order_start_time \<le> t) orders)) \<and>
   rejected (agg_of (fst (order_loop strp client_id order_start_time orders Map.empty [])) i) =
     sum_list (map (added rejected i)
       (filter (\<lambda>order. case order_time_of strp order of None \<Rightarrow> False
                         | Some t \<Rightarrow> order_start_time \<le> t) orders))"
proof -
  have w: "in_window strp order_start_time =
      (\<lambda>order. case order_time_of strp order of None \<Rightarrow> False | Some t \<Rightarrow> order_start_time \<le> t)"
    by (rule ext) (simp add: in_window_def)
  show ?thesis
    using order_loop_sums [of strp client_id order_start_time orders Map.empty "[]" i]
    by (simp add: w agg_of_empty zero_agg_def)
qed

theorem orders_counted_from_cutoff_witness:
  "executed (agg_of (fst (order_loop example_strptime ''C1'' example_cutoff example_orders Map.empty [])) 100) = 20 \<and>
   open_qty (agg_of (fst (order_loop example_strptime ''C1'' example_cutoff example_orders Map.empty [])) 100) = 5 \<and>
   rejected (agg_of (fst (order_loop example_strptime ''C1'' example_cutoff example_orders Map.empty [])) 100) = 0"
proof -
  have f: "filter (\<lambda>order. case order_time_of example_strptime order of None \<Rightarrow> False
                         | Some t \<Rightarrow> example_cutoff \<le> t) example_orders = tl example_orders"
    by (simp add: example_orders_def example_cutoff_def order_time_of_def dict_get_default_def
        example_times)
  have e: "sum_list (map (added executed 100) (tl example_orders)) = 20"
    by (simp add: example_orders_def added_def count_order_def bind_def dict_get_default_def
        upper_char_def int_of_string_100 agg_of_def zero_agg_def)
  have p: "sum_list (map (added open_qty 100) (tl example_orders)) = 5"
    by (simp add: example_orders_def added_def count_order_def bind_def dict_get_default_def
        upper_char_def int_of_string_100 agg_of_def zero_agg_def)
  have r: "sum_list (map (added rejected 100) (tl example_orders)) = 0"
    by (simp add: example_orders_def added_def count_order_def bind_def dict_get_default_def
        upper_char_def int_of_string_100 agg_of_def zero_agg_def)
  show ?thesis
    using orders_counted_from_cutoff [of example_strptime "''C1''" example_cutoff example_orders 100]
    unfolding f e p r .
qed

section \<open>The renderer on a client without rows\<close>

lemma total_row_empty: "total_row series_sum [] = Inl (KeyError ''Target'')"
  by (simp add: total_row_def column_def frame_columns_def bind_def)

lemma total_row_nonempty:
  "instruments \<noteq> [] \<Longrightarrow>
   total_row series_sum instruments =
     bind (series_sum (map Target instruments)) (\<lambda>target.
     bind (series_sum (map Executed instruments)) (\<lambda>executed_total.
     bind (series_sum (map Open instruments)) (\<lambda>open_total.
     bind (series_sum (map Rejected instruments)) (\<lambda>rejected_total.
     bind (series_sum (map Live_Pos instruments)) (\<lambda>live_total.
     bind (series_sum (map Holding instruments)) (\<lambda>holding_total.
     bind (series_sum (map Remaining instruments)) (\<lambda>remaining_total.
       Inr \<lparr>Instrument = PStr ''TOTAL'', Target = target, Executed = executed_total,
            Open = open_total, Rejected = rejected_total, Live_Pos = live_total,
            Holding = holding_total, Remaining = remaining_total\<rparr>)))))))"
  by (simp add: total_row_def column_def frame_columns_def desired_columns_def bind_def)

lemma quiet_client:
  "client_apis client_id = Some quiet_api \<Longrightarrow>
   process_client strp order_start_time stock_details client_apis
     (client_id, \<lparr>total_quantity_to_sell = None\<rparr>) = (Inr (Some []), [])"
  by (simp add: process_client_def fetch_def bind_def quiet_api_def summarize_client_def
      process_positions_def process_holdings_def process_orders_def on_ok_def
      empty_order_book_def empty_positions_def empty_holdings_def dict_get_def
      dict_get_default_def)

text \<open>
  C1.  The totals row is the column-wise sum of the client's rows, and for a client with
  no rows it is all zeros and the export does not fail.  The code fails there: a client
  whose configuration has no targets gets the empty row list from the aggregator, the
  frame of no rows has no columns, and \<open>df['Target']\<close> raises \<open>KeyError\<close>, which
  ends the export.
\<close>

theorem export_fails_on_client_without_rows:
  "generate_excel_summary_sell series_sum to_excel writer strp
     [(''C1'', \<lparr>total_quantity_to_sell = None\<rparr>)] order_start_time stock_details
     [''C1'' \<mapsto> quiet_api] =
     (Inl (KeyError ''Target''), []) \<and>
   export_summary_to_excel_sell series_sum to_excel writer ((client, []) # rest) =
     Inl (KeyError ''Target'')"
  by (simp add: generate_excel_summary_sell_def generate_summary_data_sell_def quiet_client
      export_summary_to_excel_sell_def total_row_empty)

section \<open>Malformed payloads under a success tag\<close>

lemma non_success_is_empty_feed:
  "dict_get r ''type'' \<noteq> PStr ''success'' \<Longrightarrow>
     process_positions client_id (PDict r) = (Inr Map.empty, []) \<and>
     process_holdings client_id (PDict r) = (Inr Map.empty, []) \<and>
     process_orders strp client_id order_start_time (PDict r) = (Inr Map.empty, [])"
  by (simp add: process_positions_def process_holdings_def process_orders_def on_ok_def)

lemma bare_holdings_raise:
  "process_holdings client_id bare_holdings = (Inl (KeyError ''RMSHoldings''), [])"
  by (simp add: process_holdings_def on_ok_def bare_holdings_def dict_get_def)

lemma bare_holdings_client:
  "process_client strp order_start_time stock_details
     [''C1'' \<mapsto> bare_holdings_api, ''C2'' \<mapsto> quiet_api] (''C1'', params) =
     (Inl (KeyError ''RMSHoldings''), [])"
  by (simp add: process_client_def fetch_def bind_def quiet_api_def bare_holdings_api_def
      summarize_client_def process_positions_def on_ok_def bare_holdings_raise
      empty_positions_def dict_get_def dict_get_default_def)

text \<open>
  C2.  No shape of the three responses makes the aggregation stage raise an error that
  ends the run.  The code does raise: a holdings response tagged \<open>success\<close> whose
  result lacks \<open>RMSHoldings\<close> makes the subscript of line 73 raise \<open>KeyError\<close>
  outside every \<open>try\<close>, and the run ends before the next client is looked at.
\<close>

theorem malformed_holdings_end_the_run:
  "generate_summary_data_sell strp [(''C1'', params1), (''C2'', params2)] order_start_time
     stock_details [''C1'' \<mapsto> bare_holdings_api, ''C2'' \<mapsto> quiet_api] =
     (Inl (KeyError ''RMSHoldings''), [])"
  by (simp add: generate_summary_data_sell_def bare_holdings_client)

section \<open>Records without an instrument id\<close>

lemma order_body_zero_id:
  assumes "map_of order ''ExchangeInstrumentID'' = None \<or>
           (\<exists>v. map_of order ''ExchangeInstrumentID'' = Some v \<and> py_int v = Inr 0)"
  shows "count_order instrument_orders (PDict order) = Inr instrument_orders"
  using assms by (auto simp: count_order_def bind_def dict_get_default_def)

lemma order_step_zero_id:
  assumes "count_order instrument_orders (PDict order) = Inr instrument_orders"
  shows "order_step strp client_id order_start_time instrument_orders (PDict order) =
     (instrument_orders,
      case parse_order_time strp (dict_get_default order ''OrderDateTime'' (PStr [])) of
        (Inl e, lg) \<Rightarrow> lg @ [OrderError client_id e]
      | (Inr t, lg) \<Rightarrow> lg)"
  using assms
  by (simp add: order_step_def order_body_def on_ok_def split: prod.split sum.split option.split)

text \<open>
  C10.  A record whose instrument id is zero or missing is dropped without a message.
  An order whose \<open>ExchangeInstrumentID\<close> is absent or coerces to the integer 0 leaves
  every sum as it was, and whatever its turn of the loop logs comes from its timestamp
  alone.  A position or holding record whose candidate id fields are all falsy leaves the
  normalized map and the log as they were.
\<close>

theorem zero_or_missing_id_dropped:
  "((map_of order ''ExchangeInstrumentID'' = None \<or>
     (\<exists>v. map_of order ''ExchangeInstrumentID'' = Some v \<and> py_int v = Inr 0)) \<longrightarrow>
      order_step strp client_id order_start_time instrument_orders (PDict order) =
        (instrument_orders,
         case parse_order_time strp (dict_get_default order ''OrderDateTime'' (PStr [])) of
           (Inl e, lg) \<Rightarrow> lg @ [OrderError client_id e]
         | (Inr t, lg) \<Rightarrow> lg)) \<and>
   (\<not> truthy (dict_get pos ''ExchangeInstrumentID'') \<and>
    \<not> truthy (dict_get pos ''ExchangeNSEInstrumentID'') \<and>
    \<not> truthy (dict_get pos ''ExchangeNSEInstrumentId'') \<longrightarrow>
      position_loop client_id (PDict pos # rest) live_positions plog =
        position_loop client_id rest live_positions plog) \<and>
   (\<not> truthy (dict_get holding ''ExchangeNSEInstrumentID'') \<and>
    \<not> truthy (dict_get holding ''ExchangeNSEInstrumentId'') \<longrightarrow>
      holding_loop client_id ((isin, PDict holding) # hrest) holdings hlog =
        holding_loop client_id hrest holdings hlog)"
  using order_body_zero_id [of order instrument_orders]
    order_step_zero_id [of instrument_orders order strp client_id order_start_time]
  by (auto simp: position_inst_id_def holding_inst_id_def py_or_def)

theorem zero_or_missing_id_dropped_witness:
  "order_step example_strptime ''C1'' example_cutoff Map.empty (PDict zero_id_order) =
     (Map.empty, []) \<and>
   position_loop ''C1'' [PDict zero_id_position] Map.empty [] = (Inr Map.empty, []) \<and>
   holding_loop ''C1'' [(''INE001'', PDict empty_id_holding)] Map.empty [] = (Inr Map.empty, [])"
proof -
  have o: "map_of zero_id_order ''ExchangeInstrumentID'' = None \<or>
      (\<exists>v. map_of zero_id_order ''ExchangeInstrumentID'' = Some v \<and> py_int v = Inr 0)"
    by (simp add: zero_id_order_def int_of_string_def unsigned_of_string_def max_str_digits_def strip_def is_space_def is_digit_def
        digit_val_def)
  have t: "parse_order_time example_strptime
      (dict_get_default zero_id_order ''OrderDateTime'' (PStr [])) =
      (Inr (Some (2024, 2, 13, 10, 30, 0, 0)), [])"
    by (simp add: zero_id_order_def dict_get_default_def example_times)
  have p: "\<not> truthy (dict_get zero_id_position ''ExchangeInstrumentID'') \<and>
      \<not> truthy (dict_get zero_id_position ''ExchangeNSEInstrumentID'') \<and>
      \<not> truthy (dict_get zero_id_position ''ExchangeNSEInstrumentId'')"
    by (simp add: zero_id_position_def dict_get_def)
  have h: "\<not> truthy (dict_get empty_id_holding ''ExchangeNSEInstrumentID'') \<and>
      \<not> truthy (dict_get empty_id_holding ''ExchangeNSEInstrumentId'')"
    by (simp add: empty_id_holding_def dict_get_def)
  show ?thesis
    using zero_or_missing_id_dropped [of zero_id_order example_strptime "''C1''" example_cutoff
        Map.empty zero_id_position "[]" Map.empty "[]" empty_id_holding "''INE001''" "[]"
        Map.empty "[]"] o t p h
    by simp
qed

section \<open>Numeric fields of positions and holdings\<close>

lemma position_loop_total:
  "\<exists>live_positions' lg'.
     position_loop client_id (map PDict ps) live_positions lg = (Inr live_positions', lg')"
proof (induction ps arbitrary: live_positions lg)
  case Nil
  show ?case by simp
next
  case (Cons p ps)
  show ?case
    using Cons.IH by (simp add: Let_def split: sum.split)
qed

lemma holding_loop_total:
  "\<exists>holdings' lg'.
     holding_loop client_id (map (\<lambda>(isin, h). (isin, PDict h)) hs) holdings lg =
       (Inr holdings', lg')"
proof (induction hs arbitrary: holdings lg)
  case Nil
  show ?case by simp
next
  case (Cons h hs)
  obtain isin d where h: "h = (isin, d)" by (cases h)
  show ?case
    using Cons.IH by (simp add: h Let_def split: sum.split)
qed

lemma text_quantity_positions_stored:
  "\<exists>live_positions.
     process_positions ''C1'' text_quantity_positions = (Inr live_positions, []) \<and>
     live_positions 100 = Some \<lparr>trading_symbol = PStr ''N/A'', quantity = PStr ''abc''\<rparr>"
  by (simp add: process_positions_def on_ok_def text_quantity_positions_def dict_get_def
      dict_get_default_def position_inst_id_def py_or_def)

text \<open>
  C6.  As stated: a numeric field of a position or holding record defaults to zero when
  absent, and a record whose numeric field is present but no number is logged and
  skipped.  The code coerces no numeric field: a position whose \<open>Quantity\<close> is the
  string \<open>abc\<close> is stored under its instrument with that quantity, and nothing is
  logged.
\<close>

theorem non_numeric_quantity_is_stored:
  "(case process_positions ''C1'' text_quantity_positions of
      (Inr live_positions, lg) \<Rightarrow>
        live_positions 100 = Some \<lparr>trading_symbol = PStr ''N/A'', quantity = PStr ''abc''\<rparr> \<and>
        lg = []
    | (Inl e, lg) \<Rightarrow> False)"
  using text_quantity_positions_stored by auto

text \<open>
  C6, amended.  A record with a truthy instrument id that coerces to an integer is stored
  under that integer with its numeric fields exactly as received, zero when absent, with
  no coercion and no message; a record whose id does not coerce is logged and skipped;
  and a feed of dictionary records is processed to its end, whatever the records hold.
\<close>

theorem numeric_fields_stored_as_received:
  "(truthy (position_inst_id pos) \<and> py_int (position_inst_id pos) = Inr i \<longrightarrow>
      position_loop client_id (PDict pos # rest) live_positions plog =
        position_loop client_id rest
          (live_positions(i \<mapsto>
             \<lparr>trading_symbol =
                (case map_of pos ''TradingSymbol'' of None \<Rightarrow> PStr ''N/A'' | Some v \<Rightarrow> v),
              quantity = (case map_of pos ''Quantity'' of None \<Rightarrow> PInt 0 | Some v \<Rightarrow> v)\<rparr>))
          plog) \<and>
   (truthy (position_inst_id pos) \<and> py_int (position_inst_id pos) = Inl e \<longrightarrow>
      position_loop client_id (PDict pos # rest) live_positions plog =
        position_loop client_id rest live_positions (plog @ [PositionError client_id e])) \<and>
   (\<exists>live_positions' lg'.
      position_loop client_id (map PDict ps) live_positions plog = (Inr live_positions', lg')) \<and>
   (truthy (holding_inst_id holding) \<and> py_int (holding_inst_id holding) = Inr j \<longrightarrow>
      holding_loop client_id ((isin, PDict holding) # hrest) holdings hlog =
        holding_loop client_id hrest
          (holdings(j \<mapsto>
             \<lparr>holding_quantity =
                (case map_of holding ''HoldingQuantity'' of None \<Rightarrow> PInt 0 | Some v \<Rightarrow> v),
              buy_avg_price =
                (case map_of holding ''BuyAvgPrice'' of None \<Rightarrow> PInt 0 | Some v \<Rightarrow> v)\<rparr>))
          hlog) \<and>
   (truthy (holding_inst_id holding) \<and> py_int (holding_inst_id holding) = Inl e' \<longrightarrow>
      holding_loop client_id ((isin, PDict holding) # hrest) holdings hlog =
        holding_loop client_id hrest holdings (hlog @ [HoldingError client_id e'])) \<and>
   (\<exists>holdings' lg'.
      holding_loop client_id (map (\<lambda>(isin, h). (isin, PDict h)) hs) holdings hlog =
        (Inr holdings', lg'))"
  using position_loop_total [of client_id ps live_positions plog]
    holding_loop_total [of client_id hs holdings hlog]
  by (simp add: dict_get_default_def)

lemma int_of_string_x1: "int_of_string ''x1'' = None"
  by (simp add: int_of_string_def unsigned_of_string_def max_str_digits_def strip_def is_space_def is_digit_def digit_val_def)

theorem numeric_fields_stored_as_received_witness:
  "position_loop ''C1'' [PDict text_quantity_position] Map.empty [] =
     (Inr [100 \<mapsto> \<lparr>trading_symbol = PStr ''N/A'', quantity = PStr ''abc''\<rparr>], []) \<and>
   position_loop ''C1'' [PDict text_id_position] Map.empty [] =
     (Inr Map.empty, [PositionError ''C1'' ValueError]) \<and>
   holding_loop ''C1'' [(''INE001'', PDict bare_holding)] Map.empty [] =
     (Inr [100 \<mapsto> \<lparr>holding_quantity = PInt 0, buy_avg_price = PInt 0\<rparr>], [])"
proof -
  have p1: "truthy (position_inst_id text_quantity_position) \<and>
      py_int (position_inst_id text_quantity_position) = Inr 100"
    by (simp add: text_quantity_position_def position_inst_id_def py_or_def dict_get_def)
  have p2: "truthy (position_inst_id text_id_position) \<and>
      py_int (position_inst_id text_id_position) = Inl ValueError"
    by (simp add: text_id_position_def position_inst_id_def py_or_def dict_get_def
        int_of_string_x1)
  have h1: "truthy (holding_inst_id bare_holding) \<and>
      py_int (holding_inst_id bare_holding) = Inr 100"
    by (simp add: bare_holding_def holding_inst_id_def py_or_def dict_get_def int_of_string_100)
  have m: "map_of text_quantity_position ''Quantity'' = Some (PStr ''abc'')"
    "map_of text_quantity_position ''TradingSymbol'' = None"
    "map_of bare_holding ''HoldingQuantity'' = None"
    "map_of bare_holding ''BuyAvgPrice'' = None"
    by (simp_all add: text_quantity_position_def bare_holding_def)
  show ?thesis
    using numeric_fields_stored_as_received [of text_quantity_position 100 "''C1''" "[]"
        Map.empty "[]" ValueError "[]" bare_holding 100 "''INE001''" "[]" Map.empty "[]"
        ValueError "[]"]
      numeric_fields_stored_as_received [of text_id_position 0 "''C1''" "[]"
        Map.empty "[]" ValueError "[]" bare_holding 100 "''INE001''" "[]" Map.empty "[]"
        ValueError "[]"] p1 p2 h1 m
    by simp
qed

section \<open>Row builder\<close>

lemma str_int_100: "str_int 100 = Inr ''100''"
  by code_simp

lemma build_rows_step_row:
  "build_row sd io lp hs item = Inr row \<Longrightarrow>
   build_rows client_id sd io lp hs (item # rest) rows lg =
     build_rows client_id sd io lp hs rest (rows @ [row]) lg"
  by simp

lemma build_rows_step_skip:
  "build_row sd io lp hs item = Inl e \<Longrightarrow> key_str (fst item) = Inr s \<Longrightarrow>
   build_rows client_id sd io lp hs (item # rest) rows lg =
     build_rows client_id sd io lp hs rest rows (lg @ [InstrumentError s client_id e])"
  by simp

lemma build_row_built:
  assumes "key_int ex_id = Inr i" and "key_str ex_id = Inr s"
    and "py_sub_int (case hs i of None \<Rightarrow> PInt 0 | Some h \<Rightarrow> holding_quantity h)
           (executed (agg_of io i)) = Inr r"
  shows "build_row sd io lp hs (ex_id, target_qty) =
    Inr \<lparr>Instrument =
           (case sd i of
              None \<Rightarrow> PStr (''ID:'' @ s)
            | Some d \<Rightarrow> dict_get_default d ''name'' (PStr (''ID:'' @ s))),
         Target = target_qty,
         Executed = PInt (executed (agg_of io i)),
         Open = PInt (open_qty (agg_of io i)),
         Rejected = PInt (rejected (agg_of io i)),
         Live_Pos = (case lp i of None \<Rightarrow> PInt 0 | Some p \<Rightarrow> quantity p),
         Holding = (case hs i of None \<Rightarrow> PInt 0 | Some h \<Rightarrow> holding_quantity h),
         Remaining = r\<rparr>"
  using assms
  by (simp add: build_row_def bind_def Let_def agg_of_def dict_get_default_def
      split: option.split)

lemma build_row_failed:
  assumes "build_row sd io lp hs (ex_id, target_qty) = Inl e"
  shows "key_int ex_id = Inl e \<or>
    (\<exists>i. key_int ex_id = Inr i \<and>
       (key_str ex_id = Inl e \<or>
        py_sub_int (case hs i of None \<Rightarrow> PInt 0 | Some h \<Rightarrow> holding_quantity h)
          (executed (agg_of io i)) = Inl e))"
  using assms
  by (auto simp: build_row_def bind_def Let_def agg_of_def split: sum.splits)

lemma example_orders_agg:
  "process_orders example_strptime client_id example_cutoff one_filled_order_book =
     (Inr [100 \<mapsto> \<lparr>executed = 20, open_qty = 0, rejected = 0\<rparr>], [])"
  by (simp add: process_orders_def on_ok_def one_filled_order_book_def dict_get_def
      dict_get_default_def order_step_def order_body_def example_times example_cutoff_def
      count_order_def bind_def upper_char_def agg_of_def zero_agg_def)

lemma example_holdings_map:
  "process_holdings client_id (holdings_of qty) =
     (Inr [100 \<mapsto> \<lparr>holding_quantity = qty, buy_avg_price = PInt 10\<rparr>], [])"
  by (simp add: process_holdings_def on_ok_def holdings_of_def dict_get_def
      dict_get_default_def holding_inst_id_def py_or_def)

lemma example_positions_map:
  "process_positions client_id empty_positions = (Inr Map.empty, [])"
  by (simp add: process_positions_def on_ok_def empty_positions_def dict_get_def
      dict_get_default_def)

lemma example_fetch:
  "fetch (example_api qty) client_id =
     Inr (one_filled_order_book, empty_positions, holdings_of qty)"
  by (simp add: fetch_def bind_def example_api_def)

lemma example_summary:
  "summarize_client example_strptime example_cutoff Map.empty client_id example_params
     (one_filled_order_book, empty_positions, holdings_of (PInt 80)) =
     (Inr [example_row], [])"
  by (simp add: summarize_client_def example_orders_agg example_holdings_map
      example_positions_map example_params_def build_row_def bind_def dict_get_default_def
      str_int_100 example_row_def)

lemma text_holding_summary:
  "summarize_client example_strptime example_cutoff Map.empty client_id example_params
     (one_filled_order_book, empty_positions, holdings_of (PStr ''80'')) =
     (Inr [], [InstrumentError ''100'' client_id TypeError])"
  by (simp add: summarize_client_def example_orders_agg example_holdings_map
      example_positions_map example_params_def build_row_def bind_def dict_get_default_def
      str_int_100)

lemma example_run:
  "generate_summary_data_sell example_strptime [(''C1'', example_params)] example_cutoff
     Map.empty [''C1'' \<mapsto> example_api (PInt 80)] = (Inr [(''C1'', [example_row])], [])"
  by (simp add: generate_summary_data_sell_def process_client_def example_fetch
      example_summary)

text \<open>
  C3.  For every pair of a client's configuration the row builder resolves the name,
  the order aggregates, the live position and the holding, and computes the remaining
  quantity; a pair for which one of these steps raises is logged and skipped.  So for
  every pair whose id coerces to an integer \<open>i\<close> and can be formatted, and for which
  holding minus executed is defined, one row is appended: its target is the configured
  one, its name falls back to \<open>ID:<id>\<close> when the instrument is not in the metadata,
  its executed, open and rejected quantities are zero when the instrument has no order
  aggregates, its live position and holding are zero when absent from those feeds, and
  its remaining quantity is holding minus executed.  With no holding for the instrument
  the subtraction is always defined.  When the row builder raises, it is for the id or
  for the subtraction, and the turn of the loop logs the pair and appends nothing.  For
  the target configuration \<open>{100: 50}\<close>, one \<open>FILLED\<close> order of 20 for instrument 100
  after the cutoff and a holding of 80, the run returns for the client the one row with
  target 50, executed 20, open 0, rejected 0 and remaining 60.
\<close>

theorem row_builder_fields:
  "(key_int ex_id = Inr i \<and> key_str ex_id = Inr s \<and>
    py_sub_int (case holdings i of None \<Rightarrow> PInt 0 | Some h \<Rightarrow> holding_quantity h)
      (executed (agg_of instrument_orders i)) = Inr remaining \<longrightarrow>
      (\<exists>row. build_row stock_details instrument_orders live_positions holdings
               (ex_id, target_qty) = Inr row \<and>
         build_rows client_id stock_details instrument_orders live_positions holdings
           ((ex_id, target_qty) # rest) client_summary lg =
           build_rows client_id stock_details instrument_orders live_positions holdings rest
             (client_summary @ [row]) lg \<and>
         Target row = target_qty \<and>
         (stock_details i = None \<longrightarrow> Instrument row = PStr (''ID:'' @ s)) \<and>
         (\<forall>d. stock_details i = Some d \<longrightarrow>
            Instrument row = dict_get_default d ''name'' (PStr (''ID:'' @ s))) \<and>
         Executed row = PInt (executed (agg_of instrument_orders i)) \<and>
         Open row = PInt (open_qty (agg_of instrument_orders i)) \<and>
         Rejected row = PInt (rejected (agg_of instrument_orders i)) \<and>
         (instrument_orders i = None \<longrightarrow>
            Executed row = PInt 0 \<and> Open row = PInt 0 \<and> Rejected row = PInt 0) \<and>
         (live_positions i = None \<longrightarrow> Live_Pos row = PInt 0) \<and>
         (\<forall>p. live_positions i = Some p \<longrightarrow> Live_Pos row = quantity p) \<and>
         (holdings i = None \<longrightarrow> Holding row = PInt 0) \<and>
         (\<forall>h. holdings i = Some h \<longrightarrow> Holding row = holding_quantity h) \<and>
         Remaining row = remaining \<and>
         (\<forall>h. Holding row = PInt h \<longrightarrow>
            Remaining row = PInt (h - executed (agg_of instrument_orders i))))) \<and>
   (key_int ex_id = Inr i \<and> key_str ex_id = Inr s \<and> holdings i = None \<longrightarrow>
      (\<exists>row. build_row stock_details instrument_orders live_positions holdings
               (ex_id, target_qty) = Inr row)) \<and>
   (\<forall>e. build_row stock_details instrument_orders live_positions holdings (ex_id, target_qty) =
          Inl e \<longrightarrow>
      (key_int ex_id = Inl e \<or>
       (\<exists>j. key_int ex_id = Inr j \<and>
          (key_str ex_id = Inl e \<or>
           py_sub_int (case holdings j of None \<Rightarrow> PInt 0 | Some h \<Rightarrow> holding_quantity h)
             (executed (agg_of instrument_orders j)) = Inl e))) \<and>
      (key_str ex_id = Inr s \<longrightarrow>
         build_rows client_id stock_details instrument_orders live_positions holdings
           ((ex_id, target_qty) # rest) client_summary lg =
           build_rows client_id stock_details instrument_orders live_positions holdings rest
             client_summary (lg @ [InstrumentError s client_id e]))) \<and>
   generate_summary_data_sell example_strptime
     [(''C1'', \<lparr>total_quantity_to_sell = Some [(KInt 100, PInt 50)]\<rparr>)] example_cutoff Map.empty
     [''C1'' \<mapsto> example_api (PInt 80)] =
     (Inr [(''C1'',
            [\<lparr>Instrument = PStr ''ID:100'', Target = PInt 50, Executed = PInt 20,
              Open = PInt 0, Rejected = PInt 0, Live_Pos = PInt 0, Holding = PInt 80,
              Remaining = PInt 60\<rparr>])], [])"
proof -
  have built: "\<exists>row. build_row stock_details instrument_orders live_positions holdings
               (ex_id, target_qty) = Inr row \<and>
         build_rows client_id stock_details instrument_orders live_positions holdings
           ((ex_id, target_qty) # rest) client_summary lg =
           build_rows client_id stock_details instrument_orders live_positions holdings rest
             (client_summary @ [row]) lg \<and>
         Target row = target_qty \<and>
         (stock_details i = None \<longrightarrow> Instrument row = PStr (''ID:'' @ s)) \<and>
         (\<forall>d. stock_details i = Some d \<longrightarrow>
            Instrument row = dict_get_default d ''name'' (PStr (''ID:'' @ s))) \<and>
         Executed row = PInt (executed (agg_of instrument_orders i)) \<and>
         Open row = PInt (open_qty (agg_of instrument_orders i)) \<and>
         Rejected row = PInt (rejected (agg_of instrument_orders i)) \<and>
         (instrument_orders i = None \<longrightarrow>
            Executed row = PInt 0 \<and> Open row = PInt 0 \<and> Rejected row = PInt 0) \<and>
         (live_positions i = None \<longrightarrow> Live_Pos row = PInt 0) \<and>
         (\<forall>p. live_positions i = Some p \<longrightarrow> Live_Pos row = quantity p) \<and>
         (holdings i = None \<longrightarrow> Holding row = PInt 0) \<and>
         (\<forall>h. holdings i = Some h \<longrightarrow> Holding row = holding_quantity h) \<and>
         Remaining row = remaining \<and>
         (\<forall>h. Holding row = PInt h \<longrightarrow>
            Remaining row = PInt (h - executed (agg_of instrument_orders i)))"
    if k: "key_int ex_id = Inr i" "key_str ex_id = Inr s"
      and r: "py_sub_int (case holdings i of None \<Rightarrow> PInt 0 | Some h \<Rightarrow> holding_quantity h)
        (executed (agg_of instrument_orders i)) = Inr remaining"
  proof -
    note b = build_row_built [where ex_id = ex_id and i = i and s = s and hs = holdings
        and io = instrument_orders and r = remaining and sd = stock_details
        and lp = live_positions and target_qty = target_qty, OF k r]
    note st = build_rows_step_row [OF b, of client_id rest client_summary lg]
    show ?thesis
      unfolding b st using r by (auto simp: agg_of_def zero_agg_def)
  qed
  have absent: "\<exists>row. build_row stock_details instrument_orders live_positions holdings
               (ex_id, target_qty) = Inr row"
    if k: "key_int ex_id = Inr i" "key_str ex_id = Inr s" and h: "holdings i = None"
    using build_row_built [where ex_id = ex_id and i = i and s = s and hs = holdings
        and io = instrument_orders and sd = stock_details and lp = live_positions
        and target_qty = target_qty, OF k] h by simp
  have failed: "(key_int ex_id = Inl e \<or>
       (\<exists>j. key_int ex_id = Inr j \<and>
          (key_str ex_id = Inl e \<or>
           py_sub_int (case holdings j of None \<Rightarrow> PInt 0 | Some h \<Rightarrow> holding_quantity h)
             (executed (agg_of instrument_orders j)) = Inl e))) \<and>
      (key_str ex_id = Inr s \<longrightarrow>
         build_rows client_id stock_details instrument_orders live_positions holdings
           ((ex_id, target_qty) # rest) client_summary lg =
           build_rows client_id stock_details instrument_orders live_positions holdings rest
             client_summary (lg @ [InstrumentError s client_id e]))"
    if f: "build_row stock_details instrument_orders live_positions holdings (ex_id, target_qty) =
          Inl e" for e
    using build_row_failed [OF f] f by auto
  have run: "generate_summary_data_sell example_strptime
     [(''C1'', \<lparr>total_quantity_to_sell = Some [(KInt 100, PInt 50)]\<rparr>)] example_cutoff Map.empty
     [''C1'' \<mapsto> example_api (PInt 80)] =
     (Inr [(''C1'',
            [\<lparr>Instrument = PStr ''ID:100'', Target = PInt 50, Executed = PInt 20,
              Open = PInt 0, Rejected = PInt 0, Live_Pos = PInt 0, Holding = PInt 80,
              Remaining = PInt 60\<rparr>])], [])"
    using example_run by (simp add: example_params_def example_row_def)
  show ?thesis
    using built absent failed run by blast
qed

lemma int_of_string_abc: "int_of_string ''abc'' = None"
  by (simp add: int_of_string_def unsigned_of_string_def max_str_digits_def strip_def
      is_space_def is_digit_def digit_val_def)

theorem row_builder_fields_witness:
  "build_rows ''C1'' Map.empty [100 \<mapsto> \<lparr>executed = 20, open_qty = 0, rejected = 0\<rparr>] Map.empty
     [100 \<mapsto> \<lparr>holding_quantity = PInt 80, buy_avg_price = PInt 10\<rparr>]
     [(KInt 100, PInt 50), (KStr ''abc'', PInt 5)] [] [] =
     (Inr [\<lparr>Instrument = PStr ''ID:100'', Target = PInt 50, Executed = PInt 20, Open = PInt 0,
            Rejected = PInt 0, Live_Pos = PInt 0, Holding = PInt 80, Remaining = PInt 60\<rparr>],
      [InstrumentError ''abc'' ''C1'' ValueError])"
proof -
  let ?sd = "Map.empty :: int \<rightharpoonup> (string \<times> pyval) list"
  let ?io = "[100 \<mapsto> \<lparr>executed = 20, open_qty = 0, rejected = 0\<rparr>] :: int \<rightharpoonup> order_agg"
  let ?lp = "Map.empty :: int \<rightharpoonup> position_entry"
  let ?hs = "[100 \<mapsto> \<lparr>holding_quantity = PInt 80, buy_avg_price = PInt 10\<rparr>] :: int \<rightharpoonup> holding_entry"
  have h1: "key_int (KInt 100) = Inr 100 \<and> key_str (KInt 100) = Inr ''100'' \<and>
      py_sub_int (case ?hs 100 of None \<Rightarrow> PInt 0 | Some h \<Rightarrow> holding_quantity h)
        (executed (agg_of ?io 100)) = Inr (PInt 60)"
    by (simp add: str_int_100 agg_of_def)
  obtain row where r:
    "build_rows ''C1'' ?sd ?io ?lp ?hs ((KInt 100, PInt 50) # [(KStr ''abc'', PInt 5)]) [] [] =
       build_rows ''C1'' ?sd ?io ?lp ?hs [(KStr ''abc'', PInt 5)] ([] @ [row]) []"
    "Target row = PInt 50" "Instrument row = PStr (''ID:'' @ ''100'')"
    "Executed row = PInt (executed (agg_of ?io 100))"
    "Open row = PInt (open_qty (agg_of ?io 100))"
    "Rejected row = PInt (rejected (agg_of ?io 100))"
    "Live_Pos row = PInt 0" "Holding row = PInt 80" "Remaining row = PInt 60"
    using row_builder_fields [where ex_id = "KInt 100" and i = 100 and s = "''100''"
        and holdings = ?hs and instrument_orders = ?io and remaining = "PInt 60"
        and stock_details = ?sd and live_positions = ?lp and target_qty = "PInt 50"
        and client_id = "''C1''" and rest = "[(KStr ''abc'', PInt 5)]"
        and client_summary = "[]" and lg = "[]"] h1
    by auto
  have row: "row = \<lparr>Instrument = PStr ''ID:100'', Target = PInt 50, Executed = PInt 20,
      Open = PInt 0, Rejected = PInt 0, Live_Pos = PInt 0, Holding = PInt 80,
      Remaining = PInt 60\<rparr>"
    using r(2-9) by (cases row) (simp add: agg_of_def)
  have f: "build_row ?sd ?io ?lp ?hs (KStr ''abc'', PInt 5) = Inl ValueError"
    by (simp add: build_row_def bind_def int_of_string_abc)
  have s: "build_rows ''C1'' ?sd ?io ?lp ?hs ((KStr ''abc'', PInt 5) # []) [row] [] =
      build_rows ''C1'' ?sd ?io ?lp ?hs [] [row] ([] @ [InstrumentError ''abc'' ''C1'' ValueError])"
    using row_builder_fields [where ex_id = "KStr ''abc''" and s = "''abc''"
        and holdings = ?hs and instrument_orders = ?io
        and stock_details = ?sd and live_positions = ?lp and target_qty = "PInt 5"
        and client_id = "''C1''" and rest = "[]" and client_summary = "[row]" and lg = "[]"] f
    by simp
  show ?thesis
    unfolding r(1) append_Nil s by (simp add: row)
qed

section \<open>The client loop\<close>

lemma process_client_skipped:
  assumes "client_apis client_id = None \<or>
      (\<exists>a. client_apis client_id = Some a \<and>
         ((\<exists>e. get_order_book a client_id = Inl e) \<or>
          (\<exists>e. get_position_daywise a client_id = Inl e) \<or>
          (\<exists>e. get_holding a client_id = Inl e)))"
  shows "\<exists>msg. process_client strp order_start_time stock_details client_apis (client_id, params) =
           (Inr None, [msg]) \<and>
         (msg = ApiNotFound client_id \<or> (\<exists>e. msg = FetchError client_id e))"
proof (cases "client_apis client_id")
  case None
  then show ?thesis by (simp add: process_client_def)
next
  case (Some a)
  then have "\<exists>e. fetch a client_id = Inl e"
    using assms by (auto simp: fetch_def bind_def split: sum.split)
  then show ?thesis using Some by (auto simp: process_client_def)
qed

lemma client_loop_log:
  "client_loop strp order_start_time stock_details client_apis clients summary_data lg =
     (case client_loop strp order_start_time stock_details client_apis clients summary_data [] of
        (r, l) \<Rightarrow> (r, lg @ l))"
proof (induction clients arbitrary: summary_data lg)
  case Nil
  show ?case by simp
next
  case (Cons client clients)
  obtain r l where p: "process_client strp order_start_time stock_details client_apis client = (r, l)"
    by (cases "process_client strp order_start_time stock_details client_apis client")
  show ?case
  proof (cases r)
    case (Inl e)
    then show ?thesis using p by simp
  next
    case (Inr x)
    show ?thesis
    proof (cases x)
      case None
      show ?thesis
        using Cons.IH [of summary_data "lg @ l"] Cons.IH [of summary_data l]
        by (simp add: p Inr None split: prod.split)
    next
      case (Some rows)
      show ?thesis
        using Cons.IH [of "dict_set summary_data (fst client) rows" "lg @ l"]
          Cons.IH [of "dict_set summary_data (fst client) rows" l]
        by (simp add: p Inr Some split: prod.split)
    qed
  qed
qed

lemma client_loop_fst:
  "fst (client_loop strp order_start_time stock_details client_apis clients summary_data lg) =
   fst (client_loop strp order_start_time stock_details client_apis clients summary_data [])"
  using client_loop_log [of strp order_start_time stock_details client_apis clients summary_data lg]
  by (simp split: prod.split)

lemma client_loop_skip:
  assumes "process_client strp order_start_time stock_details client_apis client = (Inr None, l)"
  shows "fst (client_loop strp order_start_time stock_details client_apis (before @ client # after)
             summary_data lg) =
         fst (client_loop strp order_start_time stock_details client_apis (before @ after)
             summary_data lg)"
proof (induction before arbitrary: summary_data lg)
  case Nil
  show ?case
    using client_loop_fst [of strp order_start_time stock_details client_apis after summary_data
        "lg @ l"]
      client_loop_fst [of strp order_start_time stock_details client_apis after summary_data lg]
    by (simp add: assms)
next
  case (Cons b before)
  show ?case
    by (simp add: Cons.IH split: prod.split sum.split option.split)
qed

lemma dict_set_keys: "fst ` set (dict_set d k v) = insert k (fst ` set d)"
  by (induction d) auto

lemma map_of_dict_set: "map_of (dict_set d k v) = (map_of d)(k \<mapsto> v)"
  by (induction d) (auto simp: fun_eq_iff)

lemma client_loop_log_mono:
  "client_loop strp order_start_time stock_details client_apis clients summary_data lg =
     (r, lg') \<Longrightarrow> set lg \<subseteq> set lg'"
  using client_loop_log [of strp order_start_time stock_details client_apis clients summary_data lg]
  by (auto split: prod.splits)

lemma client_loop_untouched:
  "client_loop strp order_start_time stock_details client_apis clients summary_data lg =
     (Inr summary_data', lg') \<Longrightarrow> client_id \<notin> fst ` set clients \<Longrightarrow>
   map_of summary_data' client_id = map_of summary_data client_id"
proof (induction clients arbitrary: summary_data lg)
  case Nil
  then show ?case by simp
next
  case (Cons client clients)
  obtain r l where p: "process_client strp order_start_time stock_details client_apis client = (r, l)"
    by (cases "process_client strp order_start_time stock_details client_apis client")
  show ?case
  proof (cases r)
    case (Inl e)
    then show ?thesis using p Cons.prems by simp
  next
    case (Inr x)
    show ?thesis
    proof (cases x)
      case None
      then show ?thesis
        using Cons.IH [of summary_data "lg @ l"] Cons.prems p Inr by simp
    next
      case (Some rows)
      then show ?thesis
        using Cons.IH [of "dict_set summary_data (fst client) rows" "lg @ l"] Cons.prems p Inr
        by (auto simp: map_of_dict_set)
    qed
  qed
qed

lemma client_loop_entry:
  assumes "client_loop strp order_start_time stock_details client_apis clients summary_data lg =
     (Inr summary_data', lg')"
    and "distinct (map fst clients)" and "(client_id, params) \<in> set clients"
    and "process_client strp order_start_time stock_details client_apis (client_id, params) =
      (r, l)"
  shows "(case r of
           Inl e \<Rightarrow> False
         | Inr None \<Rightarrow> map_of summary_data' client_id = map_of summary_data client_id
         | Inr (Some rows) \<Rightarrow> map_of summary_data' client_id = Some rows) \<and>
         set l \<subseteq> set lg'"
  using assms(1-3)
proof (induction clients arbitrary: summary_data lg)
  case Nil
  then show ?case by simp
next
  case (Cons client clients)
  obtain r0 l0 where p: "process_client strp order_start_time stock_details client_apis client =
      (r0, l0)"
    by (cases "process_client strp order_start_time stock_details client_apis client")
  obtain x0 where r0: "r0 = Inr x0"
    using Cons.prems(1) p by (cases r0) simp_all
  let ?sm = "case x0 of None \<Rightarrow> summary_data | Some rows \<Rightarrow> dict_set summary_data (fst client) rows"
  have rest: "client_loop strp order_start_time stock_details client_apis clients ?sm (lg @ l0) =
      (Inr summary_data', lg')"
    using Cons.prems(1) p r0 by (cases x0) simp_all
  show ?case
  proof (cases "client = (client_id, params)")
    case True
    have notin: "client_id \<notin> fst ` set clients"
      using Cons.prems(2) True by auto
    have same: "r0 = r" "l0 = l"
      using p assms(4) True by simp_all
    have m: "map_of summary_data' client_id = map_of ?sm client_id"
      by (rule client_loop_untouched [OF rest notin])
    have lg: "set l \<subseteq> set lg'"
      using client_loop_log_mono [OF rest] same by auto
    show ?thesis
      using m lg same r0 True by (cases x0) (auto simp: map_of_dict_set)
  next
    case False
    then have mem: "(client_id, params) \<in> set clients"
      using Cons.prems(3) by auto
    have d: "distinct (map fst clients)" and ne: "fst client \<noteq> client_id"
      using Cons.prems(2) mem by (auto simp: rev_image_eqI)
    have ih: "(case r of
           Inl e \<Rightarrow> False
         | Inr None \<Rightarrow> map_of summary_data' client_id = map_of ?sm client_id
         | Inr (Some rows) \<Rightarrow> map_of summary_data' client_id = Some rows) \<and>
         set l \<subseteq> set lg'"
      by (rule Cons.IH [OF rest d mem])
    have "map_of ?sm client_id = map_of summary_data client_id"
      using ne by (cases x0) (simp_all add: map_of_dict_set)
    then show ?thesis using ih by (auto split: sum.splits option.splits)
  qed
qed

lemma client_loop_returns:
  assumes "\<forall>client \<in> set clients. \<forall>e l.
      process_client strp order_start_time stock_details client_apis client \<noteq> (Inl e, l)"
  shows "\<exists>summary_data' lg'.
      client_loop strp order_start_time stock_details client_apis clients summary_data lg =
        (Inr summary_data', lg')"
  using assms
proof (induction clients arbitrary: summary_data lg)
  case Nil
  show ?case by simp
next
  case (Cons client clients)
  obtain r l where p: "process_client strp order_start_time stock_details client_apis client = (r, l)"
    by (cases "process_client strp order_start_time stock_details client_apis client")
  obtain x where r: "r = Inr x"
    using Cons.prems p by (cases r) auto
  have rest: "\<forall>client \<in> set clients. \<forall>e l.
      process_client strp order_start_time stock_details client_apis client \<noteq> (Inl e, l)"
    using Cons.prems by simp
  show ?case
    using Cons.IH [OF rest] by (cases x) (simp_all add: p r)
qed

section \<open>Skipped clients\<close>

lemma recording_to_excel_call:
  "recording_to_excel writer sheet_name frame = Inr (writer @ [(sheet_name, frame)])"
  by (simp add: recording_to_excel_def)

lemma export_recorded_any:
  assumes "\<And>writer sheet_name frame.
      to_excel writer sheet_name frame = Inr (writer @ [(sheet_name, frame)])"
    and "\<forall>entry \<in> set summary_data. \<exists>totals. total_row series_sum (snd entry) = Inr totals"
  shows "export_loop series_sum to_excel summary_data writer =
    Inr (writer @
      map (\<lambda>entry. (take 31 (fst entry),
             snd entry @ (case total_row series_sum (snd entry) of Inl e \<Rightarrow> [] | Inr t \<Rightarrow> [t])))
        summary_data)"
  using assms(2)
proof (induction summary_data arbitrary: writer)
  case Nil
  show ?case by simp
next
  case (Cons entry summary_data)
  obtain client instruments where e: "entry = (client, instruments)" by (cases entry)
  obtain t where t: "total_row series_sum instruments = Inr t"
    using Cons.prems e by auto
  have rest: "\<forall>entry \<in> set summary_data.
      \<exists>totals. total_row series_sum (snd entry) = Inr totals"
    using Cons.prems by simp
  have step: "export_loop series_sum to_excel (entry # summary_data) writer =
      export_loop series_sum to_excel summary_data
        (writer @ [(take 31 client, instruments @ [t])])"
    unfolding e export_loop.simps t assms(1) by simp
  show ?case
    unfolding step Cons.IH [OF rest] by (simp add: e t)
qed

lemma export_recorded:
  assumes "\<forall>entry \<in> set summary_data. \<exists>totals. total_row series_sum (snd entry) = Inr totals"
  shows "export_loop series_sum recording_to_excel summary_data writer =
    Inr (writer @
      map (\<lambda>entry. (take 31 (fst entry),
             snd entry @ (case total_row series_sum (snd entry) of Inl e \<Rightarrow> [] | Inr t \<Rightarrow> [t])))
        summary_data)"
  by (rule export_recorded_any [OF recording_to_excel_call assms])

lemma example_run_at:
  "client_apis client_id = Some (example_api (PInt 80)) \<Longrightarrow>
   process_client example_strptime example_cutoff Map.empty client_apis
     (client_id, example_params) = (Inr (Some [example_row]), [])"
  by (simp add: process_client_def example_fetch example_summary)

lemma example_totals:
  "total_row integer_sum [example_row] =
     Inr \<lparr>Instrument = PStr ''TOTAL'', Target = PInt 50, Executed = PInt 20, Open = PInt 0,
          Rejected = PInt 0, Live_Pos = PInt 0, Holding = PInt 80, Remaining = PInt 60\<rparr>"
  by (simp add: total_row_def column_def frame_columns_def desired_columns_def bind_def
      integer_sum_def example_row_def)

lemma skipped_returns:
  assumes m: "process_client strp order_start_time stock_details client_apis (client_id, params) =
       (Inr None, [msg])"
    and o: "\<forall>client \<in> set (before @ after). \<forall>e l.
        process_client strp order_start_time stock_details client_apis client \<noteq> (Inl e, l)"
  shows "\<exists>summary_data lg.
         generate_summary_data_sell strp (before @ (client_id, params) # after) order_start_time
           stock_details client_apis = (Inr summary_data, lg)"
proof -
  have "process_client strp order_start_time stock_details client_apis client \<noteq> (Inl e, l)"
    if "client \<in> set (before @ (client_id, params) # after)" for client e l
  proof (cases "client = (client_id, params)")
    case True
    then show ?thesis using m by simp
  next
    case False
    then have "client \<in> set (before @ after)" using that by auto
    then show ?thesis using o by blast
  qed
  then have "\<forall>client \<in> set (before @ (client_id, params) # after). \<forall>e l.
      process_client strp order_start_time stock_details client_apis client \<noteq> (Inl e, l)"
    by blast
  from client_loop_returns [OF this] show ?thesis
    unfolding generate_summary_data_sell_def by blast
qed

lemma skipped_entries:
  assumes m: "process_client strp order_start_time stock_details client_apis (client_id, params) =
       (Inr None, [msg])"
    and d: "distinct (map fst (before @ (client_id, params) # after))"
    and g: "generate_summary_data_sell strp (before @ (client_id, params) # after)
        order_start_time stock_details client_apis = (Inr summary_data, lg)"
  shows "map_of summary_data client_id = None" and "msg \<in> set lg"
    and "(other, other_params) \<in> set (before @ after) \<Longrightarrow> client_apis other = Some a \<Longrightarrow>
         fetch a other = Inr responses \<Longrightarrow>
         summarize_client strp order_start_time stock_details other other_params responses =
           (Inr rows, l) \<Longrightarrow>
         map_of summary_data other = Some rows"
proof -
  let ?clients = "before @ (client_id, params) # after"
  have loop: "client_loop strp order_start_time stock_details client_apis ?clients [] [] =
      (Inr summary_data, lg)"
    using g by (simp add: generate_summary_data_sell_def)
  have mem: "(client_id, params) \<in> set ?clients" by simp
  note e = client_loop_entry [OF loop d mem m]
  show "map_of summary_data client_id = None" using e by simp
  show "msg \<in> set lg" using e by simp
  show "map_of summary_data other = Some rows"
    if o: "(other, other_params) \<in> set (before @ after)" "client_apis other = Some a"
      "fetch a other = Inr responses"
      "summarize_client strp order_start_time stock_details other other_params responses =
         (Inr rows, l)"
  proof -
    have p: "process_client strp order_start_time stock_details client_apis
        (other, other_params) = (Inr (Some rows), l)"
      using o(2-4) by (simp add: process_client_def)
    have "(other, other_params) \<in> set ?clients" using o(1) by auto
    from client_loop_entry [OF loop d this p] show ?thesis by simp
  qed
qed

text \<open>
  C8.  A configured client with no API handle, or one of whose three feed calls raises,
  is skipped with one logged message, and the outcome of the run is that of the run
  without this client.  The skipped client never makes the run fail: when no other client
  raises, the run returns its mapping.  In the mapping the run returns, the skipped client
  has no entry, its message is in the log, and every other client whose feeds were
  fetched and summarized has its rows under its id.  The renderer hands the library one
  frame per entry of the mapping, in its order, under the entry's id cut to 31
  characters, so none for the skipped client (shown on a writer that records its calls,
  when every totals row can be computed).
\<close>

theorem skipped_client_leaves_no_entry:
  "(client_apis client_id = None \<or>
    (\<exists>a. client_apis client_id = Some a \<and>
       ((\<exists>e. get_order_book a client_id = Inl e) \<or>
        (\<exists>e. get_position_daywise a client_id = Inl e) \<or>
        (\<exists>e. get_holding a client_id = Inl e)))) \<longrightarrow>
   (\<exists>msg. process_client strp order_start_time stock_details client_apis (client_id, params) =
            (Inr None, [msg]) \<and>
          (msg = ApiNotFound client_id \<or> (\<exists>e. msg = FetchError client_id e))) \<and>
   fst (generate_summary_data_sell strp (before @ (client_id, params) # after) order_start_time
          stock_details client_apis) =
     fst (generate_summary_data_sell strp (before @ after) order_start_time stock_details
            client_apis) \<and>
   ((\<forall>client \<in> set (before @ after). \<forall>e l.
        process_client strp order_start_time stock_details client_apis client \<noteq> (Inl e, l)) \<longrightarrow>
      (\<exists>summary_data lg.
         generate_summary_data_sell strp (before @ (client_id, params) # after) order_start_time
           stock_details client_apis = (Inr summary_data, lg))) \<and>
   (\<forall>summary_data lg.
      distinct (map fst (before @ (client_id, params) # after)) \<and>
      generate_summary_data_sell strp (before @ (client_id, params) # after) order_start_time
        stock_details client_apis = (Inr summary_data, lg) \<longrightarrow>
      map_of summary_data client_id = None \<and>
      (\<exists>msg \<in> set lg. msg = ApiNotFound client_id \<or> (\<exists>e. msg = FetchError client_id e)) \<and>
      (\<forall>other other_params a responses rows l.
         (other, other_params) \<in> set (before @ after) \<and> client_apis other = Some a \<and>
         fetch a other = Inr responses \<and>
         summarize_client strp order_start_time stock_details other other_params responses =
           (Inr rows, l) \<longrightarrow>
         map_of summary_data other = Some rows) \<and>
      ((\<forall>entry \<in> set summary_data. \<exists>totals. total_row series_sum (snd entry) = Inr totals) \<longrightarrow>
         export_summary_to_excel_sell series_sum recording_to_excel [] summary_data =
           Inr (map (\<lambda>entry. (take 31 (fst entry),
                       snd entry @
                       (case total_row series_sum (snd entry) of Inl e \<Rightarrow> [] | Inr t \<Rightarrow> [t])))
                  summary_data)))"
  (is "_ \<longrightarrow> ?A \<and> ?B \<and> ?C \<and> ?D")
proof (intro impI)
  assume h: "client_apis client_id = None \<or>
    (\<exists>a. client_apis client_id = Some a \<and>
       ((\<exists>e. get_order_book a client_id = Inl e) \<or>
        (\<exists>e. get_position_daywise a client_id = Inl e) \<or>
        (\<exists>e. get_holding a client_id = Inl e)))"
  let ?clients = "before @ (client_id, params) # after"
  obtain msg where m:
    "process_client strp order_start_time stock_details client_apis (client_id, params) =
       (Inr None, [msg])"
    and f: "msg = ApiNotFound client_id \<or> (\<exists>e. msg = FetchError client_id e)"
    using process_client_skipped [of client_apis client_id strp order_start_time stock_details
        params] h by blast
  show "?A \<and> ?B \<and> ?C \<and> ?D"
  proof (intro conjI)
    show ?A using m f by (intro exI [of _ msg] conjI)
    show ?B
      unfolding generate_summary_data_sell_def by (rule client_loop_skip [OF m])
    show ?C by (intro impI) (rule skipped_returns [OF m])
    show ?D
    proof (intro allI impI, elim conjE, intro conjI)
      fix summary_data lg
      assume d: "distinct (map fst ?clients)"
        and g: "generate_summary_data_sell strp ?clients order_start_time stock_details
          client_apis = (Inr summary_data, lg)"
      note e = skipped_entries [OF m d g]
      show "map_of summary_data client_id = None" by (rule e(1))
      show "\<exists>msg \<in> set lg. msg = ApiNotFound client_id \<or> (\<exists>e. msg = FetchError client_id e)"
        using e(2) f by (intro bexI [of _ msg])
      show "\<forall>other other_params a responses rows l.
           (other, other_params) \<in> set (before @ after) \<and> client_apis other = Some a \<and>
           fetch a other = Inr responses \<and>
           summarize_client strp order_start_time stock_details other other_params responses =
             (Inr rows, l) \<longrightarrow>
           map_of summary_data other = Some rows"
        by (intro allI impI, elim conjE) (rule e(3))
      show "(\<forall>entry \<in> set summary_data.
            \<exists>totals. total_row series_sum (snd entry) = Inr totals) \<longrightarrow>
          export_summary_to_excel_sell series_sum recording_to_excel [] summary_data =
            Inr (map (\<lambda>entry. (take 31 (fst entry),
                        snd entry @
                        (case total_row series_sum (snd entry) of Inl e \<Rightarrow> [] | Inr t \<Rightarrow> [t])))
                   summary_data)"
      proof (intro impI)
        assume t: "\<forall>entry \<in> set summary_data.
            \<exists>totals. total_row series_sum (snd entry) = Inr totals"
        show "export_summary_to_excel_sell series_sum recording_to_excel [] summary_data =
            Inr (map (\<lambda>entry. (take 31 (fst entry),
                        snd entry @
                        (case total_row series_sum (snd entry) of Inl e \<Rightarrow> [] | Inr t \<Rightarrow> [t])))
                   summary_data)"
          using export_recorded [OF t, of "[]"] by (simp add: export_summary_to_excel_sell_def)
      qed
    qed
  qed
qed

lemma failing_positions_client:
  "client_apis client_id = Some failing_positions_api \<Longrightarrow>
   process_client strp order_start_time stock_details client_apis (client_id, params) =
     (Inr None, [FetchError client_id (ApiError ''timeout'')])"
  by (simp add: process_client_def fetch_def bind_def failing_positions_api_def quiet_api_def)

theorem skipped_client_leaves_no_entry_witness:
  "generate_excel_summary_sell integer_sum recording_to_excel [] example_strptime
     [(''C1'', example_params), (''C2'', example_params)] example_cutoff Map.empty
     [''C1'' \<mapsto> failing_positions_api, ''C2'' \<mapsto> example_api (PInt 80)] =
     (Inr [(''C2'',
            [\<lparr>Instrument = PStr ''ID:100'', Target = PInt 50, Executed = PInt 20,
              Open = PInt 0, Rejected = PInt 0, Live_Pos = PInt 0, Holding = PInt 80,
              Remaining = PInt 60\<rparr>,
             \<lparr>Instrument = PStr ''TOTAL'', Target = PInt 50, Executed = PInt 20,
              Open = PInt 0, Rejected = PInt 0, Live_Pos = PInt 0, Holding = PInt 80,
              Remaining = PInt 60\<rparr>])],
      [FetchError ''C1'' (ApiError ''timeout'')])"
proof -
  let ?apis = "[''C1'' \<mapsto> failing_positions_api, ''C2'' \<mapsto> example_api (PInt 80)]"
  let ?sd = "Map.empty :: int \<rightharpoonup> (string \<times> pyval) list"
  let ?summary = "[(''C2'', [example_row])]"
  let ?lg = "[FetchError ''C1'' (ApiError ''timeout'')]"
  have h: "?apis ''C1'' = None \<or>
    (\<exists>a. ?apis ''C1'' = Some a \<and>
       ((\<exists>e. get_order_book a ''C1'' = Inl e) \<or>
        (\<exists>e. get_position_daywise a ''C1'' = Inl e) \<or>
        (\<exists>e. get_holding a ''C1'' = Inl e)))"
    by (simp add: failing_positions_api_def)
  have p1: "process_client example_strptime example_cutoff ?sd ?apis (''C1'', example_params) =
      (Inr None, ?lg)"
    by (rule failing_positions_client) simp
  have p2: "process_client example_strptime example_cutoff ?sd ?apis (''C2'', example_params) =
      (Inr (Some [example_row]), [])"
    by (rule example_run_at) simp
  have g: "generate_summary_data_sell example_strptime
      ([] @ (''C1'', example_params) # [(''C2'', example_params)]) example_cutoff ?sd ?apis =
      (Inr ?summary, ?lg)"
    by (simp add: generate_summary_data_sell_def p1 p2)
  have d: "distinct (map fst ([] @ (''C1'', example_params) # [(''C2'', example_params)]))"
    by simp
  have t: "\<forall>entry \<in> set ?summary. \<exists>totals. total_row integer_sum (snd entry) = Inr totals"
    by (simp add: example_totals)
  have "export_summary_to_excel_sell integer_sum recording_to_excel [] ?summary =
      Inr (map (\<lambda>entry. (take 31 (fst entry),
                  snd entry @
                  (case total_row integer_sum (snd entry) of Inl e \<Rightarrow> [] | Inr t \<Rightarrow> [t])))
             ?summary)"
    using skipped_client_leaves_no_entry [where client_apis = ?apis and client_id = "''C1''"
        and strp = example_strptime and order_start_time = example_cutoff
        and stock_details = ?sd and params = example_params and before = "[]"
        and after = "[(''C2'', example_params)]" and series_sum = integer_sum] h d g t
    by blast
  then have e: "export_summary_to_excel_sell integer_sum recording_to_excel [] ?summary =
      Inr [(''C2'', [example_row,
        \<lparr>Instrument = PStr ''TOTAL'', Target = PInt 50, Executed = PInt 20,
          Open = PInt 0, Rejected = PInt 0, Live_Pos = PInt 0, Holding = PInt 80,
          Remaining = PInt 60\<rparr>])]"
    by (simp add: example_totals)
  show ?thesis
    using g e by (simp add: generate_excel_summary_sell_def example_row_def)
qed

section \<open>One row per configured entry\<close>

lemma build_rows_eq:
  assumes "\<forall>item \<in> set items. \<exists>s. key_str (fst item) = Inr s"
  shows "build_rows client_id sd io lp hs items rows lg =
     (Inr (rows @ List.map_filter (row_of sd io lp hs) items),
      lg @ List.map_filter (message_of client_id sd io lp hs) items)"
  using assms
proof (induction items arbitrary: rows lg)
  case Nil
  show ?case by (simp add: map_filter_simps)
next
  case (Cons item items)
  obtain s where s: "key_str (fst item) = Inr s" using Cons.prems by auto
  have rest: "\<forall>item \<in> set items. \<exists>s. key_str (fst item) = Inr s"
    using Cons.prems by simp
  show ?case
    by (cases "build_row sd io lp hs item")
      (simp_all add: Cons.IH [OF rest] s map_filter_simps row_of_def message_of_def)
qed

lemma build_row_agree:
  assumes "\<forall>i. key_int (fst item) = Inr i \<longrightarrow>
      agg_of io' i = agg_of io i \<and> lp' i = lp i \<and> hs' i = hs i"
  shows "build_row sd io' lp' hs' item = build_row sd io lp hs item"
proof (cases "key_int (fst item)")
  case (Inl e)
  then show ?thesis by (cases item) (simp add: build_row_def bind_def)
next
  case (Inr i)
  then have a: "agg_of io' i = agg_of io i" "lp' i = lp i" "hs' i = hs i"
    using assms by simp_all
  have b: "(case io' i of None \<Rightarrow> zero_agg | Some a \<Rightarrow> a) =
      (case io i of None \<Rightarrow> zero_agg | Some a \<Rightarrow> a)"
    using a(1) by (simp add: agg_of_def)
  show ?thesis
    using Inr by (cases item) (simp add: build_row_def bind_def Let_def a(2,3) b split: sum.split)
qed

lemma build_rows_agree:
  assumes "\<forall>item \<in> set items. \<forall>i. key_int (fst item) = Inr i \<longrightarrow>
      agg_of io' i = agg_of io i \<and> lp' i = lp i \<and> hs' i = hs i"
  shows "build_rows client_id sd io' lp' hs' items rows lg =
    build_rows client_id sd io lp hs items rows lg"
  using assms
proof (induction items arbitrary: rows lg)
  case Nil
  show ?case by simp
next
  case (Cons item items)
  have r: "build_row sd io' lp' hs' item = build_row sd io lp hs item"
    using Cons.prems by (intro build_row_agree) simp
  have rest: "\<forall>item \<in> set items. \<forall>i. key_int (fst item) = Inr i \<longrightarrow>
      agg_of io' i = agg_of io i \<and> lp' i = lp i \<and> hs' i = hs i"
    using Cons.prems by simp
  show ?case
    by (simp add: r Cons.IH [OF rest] split: sum.split)
qed

lemma configured_ids_mem:
  "i \<in> set (configured_ids items) \<longleftrightarrow> (\<exists>item \<in> set items. key_int (fst item) = Inr i)"
  by (induction items) (auto simp: configured_ids_def map_filter_simps split: sum.splits)

lemma agree_on_refl: "agree_on S view r r"
  by (simp add: agree_on_def split: sum.split)

lemma map_of_map_entry:
  "map_of (map (\<lambda>kv. if fst kv = k then (fst kv, f (snd kv)) else kv) d) x =
     (if x = k then map_option f (map_of d x) else map_of d x)"
  by (induction d) auto

lemma position_loop_filter:
  assumes "\<forall>i \<in> set ids. m' i = m i"
  shows "agree_on (set ids) (\<lambda>m i. m i)
     (fst (position_loop client_id xs m lg))
     (fst (position_loop client_id (filter (\<lambda>pos. \<not> other_instrument ids (position_instrument pos)) xs) m' lg'))"
  using assms
proof (induction xs arbitrary: m m' lg lg')
  case Nil
  then show ?case by (simp add: agree_on_def)
next
  case (Cons x xs)
  let ?K = "(\<lambda>pos. \<not> other_instrument ids (position_instrument pos))"
  show ?case
  proof (cases x)
    case (PDict d)
    show ?thesis
    proof (cases "truthy (position_inst_id d)")
      case False
      have k: "?K x"
        using False by (simp add: PDict position_instrument_def id_instrument_def other_instrument_def)
      have L: "position_loop client_id (x # xs) m lg = position_loop client_id xs m lg"
        using False by (simp add: PDict)
      have R: "position_loop client_id (filter ?K (x # xs)) m' lg' =
          position_loop client_id (filter ?K xs) m' lg'"
        using k False by (simp add: PDict)
      show ?thesis
        unfolding L R by (rule Cons.IH [OF Cons.prems])
    next
      case True
      show ?thesis
      proof (cases "py_int (position_inst_id d)")
        case (Inl e)
        have k: "?K x"
          using True Inl
          by (simp add: PDict position_instrument_def id_instrument_def other_instrument_def)
        have L: "position_loop client_id (x # xs) m lg =
            position_loop client_id xs m (lg @ [PositionError client_id e])"
          using True Inl by (simp add: PDict)
        have R: "position_loop client_id (filter ?K (x # xs)) m' lg' =
            position_loop client_id (filter ?K xs) m' (lg' @ [PositionError client_id e])"
          using k True Inl by (simp add: PDict)
        show ?thesis
          unfolding L R by (rule Cons.IH [OF Cons.prems])
      next
        case (Inr i)
        let ?e = "\<lparr>trading_symbol = dict_get_default d ''TradingSymbol'' (PStr ''N/A''),
                   quantity = dict_get_default d ''Quantity'' (PInt 0)\<rparr>"
        have L: "position_loop client_id (x # xs) m lg = position_loop client_id xs (m(i \<mapsto> ?e)) lg"
          using True Inr by (simp add: PDict)
        show ?thesis
        proof (cases "i \<in> set ids")
          case True
          have k: "?K x"
            using True \<open>truthy (position_inst_id d)\<close> Inr
            by (simp add: PDict position_instrument_def id_instrument_def other_instrument_def)
          have R: "position_loop client_id (filter ?K (x # xs)) m' lg' =
              position_loop client_id (filter ?K xs) (m'(i \<mapsto> ?e)) lg'"
            using k \<open>truthy (position_inst_id d)\<close> Inr by (simp add: PDict)
          have a: "\<forall>j \<in> set ids. (m'(i \<mapsto> ?e)) j = (m(i \<mapsto> ?e)) j"
            using Cons.prems by simp
          show ?thesis
            unfolding L R by (rule Cons.IH [OF a])
        next
          case False
          have k: "\<not> ?K x"
            using False \<open>truthy (position_inst_id d)\<close> Inr
            by (simp add: PDict position_instrument_def id_instrument_def other_instrument_def)
          have R: "position_loop client_id (filter ?K (x # xs)) m' lg' =
              position_loop client_id (filter ?K xs) m' lg'"
            using k by simp
          have a: "\<forall>j \<in> set ids. m' j = (m(i \<mapsto> ?e)) j"
            using Cons.prems False by auto
          show ?thesis
            unfolding L R by (rule Cons.IH [OF a])
        qed
      qed
    qed
  qed (simp_all add: position_instrument_def other_instrument_def agree_on_def)
qed

lemma holding_loop_filter:
  assumes "\<forall>i \<in> set ids. m' i = m i"
  shows "agree_on (set ids) (\<lambda>m i. m i)
     (fst (holding_loop client_id xs m lg))
     (fst (holding_loop client_id (filter (\<lambda>kv. \<not> other_instrument ids (holding_instrument (snd kv))) xs) m' lg'))"
  using assms
proof (induction xs arbitrary: m m' lg lg')
  case Nil
  then show ?case by (simp add: agree_on_def)
next
  case (Cons x xs)
  let ?K = "(\<lambda>kv. \<not> other_instrument ids (holding_instrument (snd kv)))"
  obtain isin v where x: "x = (isin, v)" by (cases x)
  show ?case
  proof (cases v)
    case (PDict d)
    show ?thesis
    proof (cases "truthy (holding_inst_id d)")
      case False
      have k: "?K x"
        using False by (simp add: x PDict holding_instrument_def id_instrument_def other_instrument_def)
      have L: "holding_loop client_id (x # xs) m lg = holding_loop client_id xs m lg"
        using False by (simp add: x PDict)
      have R: "holding_loop client_id (filter ?K (x # xs)) m' lg' =
          holding_loop client_id (filter ?K xs) m' lg'"
        using k False by (simp add: x PDict)
      show ?thesis
        unfolding L R by (rule Cons.IH [OF Cons.prems])
    next
      case True
      show ?thesis
      proof (cases "py_int (holding_inst_id d)")
        case (Inl e)
        have k: "?K x"
          using True Inl
          by (simp add: x PDict holding_instrument_def id_instrument_def other_instrument_def)
        have L: "holding_loop client_id (x # xs) m lg =
            holding_loop client_id xs m (lg @ [HoldingError client_id e])"
          using True Inl by (simp add: x PDict)
        have R: "holding_loop client_id (filter ?K (x # xs)) m' lg' =
            holding_loop client_id (filter ?K xs) m' (lg' @ [HoldingError client_id e])"
          using k True Inl by (simp add: x PDict)
        show ?thesis
          unfolding L R by (rule Cons.IH [OF Cons.prems])
      next
        case (Inr i)
        let ?e = "\<lparr>holding_quantity = dict_get_default d ''HoldingQuantity'' (PInt 0),
                   buy_avg_price = dict_get_default d ''BuyAvgPrice'' (PInt 0)\<rparr>"
        have L: "holding_loop client_id (x # xs) m lg = holding_loop client_id xs (m(i \<mapsto> ?e)) lg"
          using True Inr by (simp add: x PDict)
        show ?thesis
        proof (cases "i \<in> set ids")
          case True
          have k: "?K x"
            using True \<open>truthy (holding_inst_id d)\<close> Inr
            by (simp add: x PDict holding_instrument_def id_instrument_def other_instrument_def)
          have R: "holding_loop client_id (filter ?K (x # xs)) m' lg' =
              holding_loop client_id (filter ?K xs) (m'(i \<mapsto> ?e)) lg'"
            using k \<open>truthy (holding_inst_id d)\<close> Inr by (simp add: x PDict)
          have a: "\<forall>j \<in> set ids. (m'(i \<mapsto> ?e)) j = (m(i \<mapsto> ?e)) j"
            using Cons.prems by simp
          show ?thesis
            unfolding L R by (rule Cons.IH [OF a])
        next
          case False
          have k: "\<not> ?K x"
            using False \<open>truthy (holding_inst_id d)\<close> Inr
            by (simp add: x PDict holding_instrument_def id_instrument_def other_instrument_def)
          have R: "holding_loop client_id (filter ?K (x # xs)) m' lg' =
              holding_loop client_id (filter ?K xs) m' lg'"
            using k by simp
          have a: "\<forall>j \<in> set ids. m' j = (m(i \<mapsto> ?e)) j"
            using Cons.prems False by auto
          show ?thesis
            unfolding L R by (rule Cons.IH [OF a])
        qed
      qed
    qed
  qed (simp_all add: x holding_instrument_def other_instrument_def agree_on_def)
qed

lemma dict_get_map_entry:
  "dict_get (map (\<lambda>kv. if fst kv = k then (fst kv, f (snd kv)) else kv) d) x =
     (if x = k then (case map_of d x of None \<Rightarrow> PNone | Some v \<Rightarrow> f v) else dict_get d x)"
  by (simp add: dict_get_def map_of_map_entry split: option.split)

lemma position_list_configured:
  "agree_on (set ids) (\<lambda>m i. m i)
     (fst (on_ok (py_iter pl) (\<lambda>records. position_loop client_id records Map.empty [])))
     (fst (on_ok (py_iter (filter_list
              (\<lambda>pos. \<not> other_instrument ids (position_instrument pos)) pl))
            (\<lambda>records. position_loop client_id records Map.empty [])))"
proof (cases pl)
  case (PList xs)
  show ?thesis
    using position_loop_filter [of ids Map.empty Map.empty client_id xs "[]" "[]"]
    by (simp add: PList on_ok_def)
qed (simp_all add: agree_on_refl)

lemma position_result_configured:
  "agree_on (set ids) (\<lambda>m i. m i)
     (fst (on_ok (py_get_default result ''positionList'' (PList []))
            (\<lambda>position_list. on_ok (py_iter position_list)
               (\<lambda>records. position_loop client_id records Map.empty []))))
     (fst (on_ok (py_get_default
                   (map_entry ''positionList''
                      (filter_list (\<lambda>pos. \<not> other_instrument ids (position_instrument pos)))
                      result) ''positionList'' (PList []))
            (\<lambda>position_list. on_ok (py_iter position_list)
               (\<lambda>records. position_loop client_id records Map.empty []))))"
proof (cases result)
  case (PDict d)
  show ?thesis
  proof (cases "map_of d ''positionList''")
    case None
    then show ?thesis
      by (simp add: PDict on_ok_def dict_get_default_def map_of_map_entry agree_on_refl)
  next
    case (Some pl)
    then show ?thesis
      using position_list_configured [of ids pl client_id]
      by (simp add: PDict on_ok_def dict_get_default_def map_of_map_entry)
  qed
qed (simp_all add: agree_on_refl)

lemma process_positions_configured:
  "agree_on (set ids) (\<lambda>m i. m i)
     (fst (process_positions client_id pos_response))
     (fst (process_positions client_id (configured_positions ids pos_response)))"
proof (cases pos_response)
  case (PDict d)
  show ?thesis
  proof (cases "map_of d ''result''")
    case None
    then show ?thesis
      by (simp add: PDict process_positions_def configured_positions_def on_ok_def
          dict_get_map_entry map_of_map_entry agree_on_refl)
  next
    case (Some result)
    then show ?thesis
      using position_result_configured [of ids result client_id]
      by (simp add: PDict process_positions_def configured_positions_def on_ok_def
          dict_get_map_entry map_of_map_entry agree_on_refl)
  qed
qed (simp_all add: configured_positions_def agree_on_refl)

lemma holding_items_configured:
  "agree_on (set ids) (\<lambda>m i. m i)
     (fst (on_ok (py_items hs) (\<lambda>items. holding_loop client_id items Map.empty [])))
     (fst (on_ok (py_items (filter_values (\<lambda>holding. \<not> other_instrument ids (holding_instrument holding)) hs))
            (\<lambda>items. holding_loop client_id items Map.empty [])))"
proof (cases hs)
  case (PDict d)
  show ?thesis
    using holding_loop_filter [of ids Map.empty Map.empty client_id d "[]" "[]"]
    by (simp add: PDict on_ok_def)
qed (simp_all add: agree_on_refl)

lemma holding_rms_configured:
  "agree_on (set ids) (\<lambda>m i. m i)
     (fst (on_ok (py_index rms ''Holdings'')
            (\<lambda>hs. on_ok (py_items hs) (\<lambda>items. holding_loop client_id items Map.empty []))))
     (fst (on_ok (py_index (map_entry ''Holdings'' (filter_values (\<lambda>holding. \<not> other_instrument ids (holding_instrument holding))) rms) ''Holdings'')
            (\<lambda>hs. on_ok (py_items hs) (\<lambda>items. holding_loop client_id items Map.empty []))))"
proof (cases rms)
  case (PDict d)
  show ?thesis
  proof (cases "map_of d ''Holdings''")
    case None
    then show ?thesis
      by (simp add: PDict on_ok_def map_of_map_entry agree_on_refl)
  next
    case (Some hs)
    then show ?thesis
      using holding_items_configured [of ids hs client_id]
      by (simp add: PDict on_ok_def map_of_map_entry)
  qed
qed (simp_all add: agree_on_refl)

lemma holding_result_configured:
  "agree_on (set ids) (\<lambda>m i. m i)
     (fst (on_ok (py_index result ''RMSHoldings'')
            (\<lambda>rms. on_ok (py_index rms ''Holdings'')
               (\<lambda>hs. on_ok (py_items hs)
                  (\<lambda>items. holding_loop client_id items Map.empty [])))))
     (fst (on_ok (py_index
                   (map_entry ''RMSHoldings'' (map_entry ''Holdings'' (filter_values (\<lambda>holding. \<not> other_instrument ids (holding_instrument holding)))) result)
                   ''RMSHoldings'')
            (\<lambda>rms. on_ok (py_index rms ''Holdings'')
               (\<lambda>hs. on_ok (py_items hs)
                  (\<lambda>items. holding_loop client_id items Map.empty [])))))"
proof (cases result)
  case (PDict d)
  show ?thesis
  proof (cases "map_of d ''RMSHoldings''")
    case None
    then show ?thesis
      by (simp add: PDict on_ok_def map_of_map_entry agree_on_refl)
  next
    case (Some rms)
    then show ?thesis
      using holding_rms_configured [of ids rms client_id]
      by (simp add: PDict on_ok_def map_of_map_entry)
  qed
qed (simp_all add: agree_on_refl)

lemma process_holdings_configured:
  "agree_on (set ids) (\<lambda>m i. m i)
     (fst (process_holdings client_id holding_response))
     (fst (process_holdings client_id (configured_holdings ids holding_response)))"
proof (cases holding_response)
  case (PDict d)
  show ?thesis
  proof (cases "map_of d ''result''")
    case None
    then show ?thesis
      by (simp add: PDict process_holdings_def configured_holdings_def on_ok_def
          dict_get_map_entry map_of_map_entry agree_on_refl)
  next
    case (Some result)
    then show ?thesis
      using holding_result_configured [of ids result client_id]
      by (simp add: PDict process_holdings_def configured_holdings_def on_ok_def
          dict_get_map_entry map_of_map_entry agree_on_refl)
  qed
qed (simp_all add: configured_holdings_def agree_on_refl)

lemma sum_list_filter_zero:
  assumes "\<forall>x \<in> set xs. \<not> keep x \<longrightarrow> g x = (0::int)"
  shows "sum_list (map g (filter W (filter keep xs))) = sum_list (map g (filter W xs))"
  using assms by (induction xs) auto

lemma added_other:
  assumes "other_instrument ids (order_instrument ord)" and "j \<in> set ids"
  shows "added executed j ord = 0" "added open_qty j ord = 0" "added rejected j ord = 0"
proof -
  obtain i st q where f: "order_fields ord = Inr (Some (i, st, q))" and i: "i \<notin> set ids"
    using assms(1)
    by (auto simp: other_instrument_def order_instrument_def split: sum.splits option.splits)
  have ne: "j \<noteq> i" using i assms(2) by blast
  show "added executed j ord = 0" "added open_qty j ord = 0" "added rejected j ord = 0"
    using ne
    by (simp_all add: added_fields f apply_fields_def Let_def agg_of_upd agg_of_empty zero_agg_def)
qed

lemma order_loop_filter:
  assumes "j \<in> set ids"
  shows "agg_of (fst (order_loop strp cid cutoff (filter (\<lambda>order. \<not> other_instrument ids (order_instrument order)) orders) Map.empty lg')) j =
     agg_of (fst (order_loop strp cid cutoff orders Map.empty lg)) j"
proof -
  have z: "\<forall>x \<in> set orders. \<not> (\<lambda>order. \<not> other_instrument ids (order_instrument order)) x \<longrightarrow> added field j x = 0"
    if "field = executed \<or> field = open_qty \<or> field = rejected" for field
    using that added_other [OF _ assms] by auto
  have e: "executed (agg_of (fst (order_loop strp cid cutoff (filter (\<lambda>order. \<not> other_instrument ids (order_instrument order)) orders) Map.empty lg')) j) =
     executed (agg_of (fst (order_loop strp cid cutoff orders Map.empty lg)) j)"
    using order_loop_sums [of strp cid cutoff "filter (\<lambda>order. \<not> other_instrument ids (order_instrument order)) orders" Map.empty lg' j]
      order_loop_sums [of strp cid cutoff orders Map.empty lg j]
      sum_list_filter_zero [OF z [of executed], of "in_window strp cutoff"]
    by simp
  have p: "open_qty (agg_of (fst (order_loop strp cid cutoff (filter (\<lambda>order. \<not> other_instrument ids (order_instrument order)) orders) Map.empty lg')) j) =
     open_qty (agg_of (fst (order_loop strp cid cutoff orders Map.empty lg)) j)"
    using order_loop_sums [of strp cid cutoff "filter (\<lambda>order. \<not> other_instrument ids (order_instrument order)) orders" Map.empty lg' j]
      order_loop_sums [of strp cid cutoff orders Map.empty lg j]
      sum_list_filter_zero [OF z [of open_qty], of "in_window strp cutoff"]
    by simp
  have r: "rejected (agg_of (fst (order_loop strp cid cutoff (filter (\<lambda>order. \<not> other_instrument ids (order_instrument order)) orders) Map.empty lg')) j) =
     rejected (agg_of (fst (order_loop strp cid cutoff orders Map.empty lg)) j)"
    using order_loop_sums [of strp cid cutoff "filter (\<lambda>order. \<not> other_instrument ids (order_instrument order)) orders" Map.empty lg' j]
      order_loop_sums [of strp cid cutoff orders Map.empty lg j]
      sum_list_filter_zero [OF z [of rejected], of "in_window strp cutoff"]
    by simp
  show ?thesis using e p r by (rule order_agg.equality) simp
qed

lemma order_result_configured:
  "agree_on (set ids) agg_of
     (fst (on_ok (py_iter result)
            (\<lambda>orders. case order_loop strp cid cutoff orders Map.empty [] of
               (instrument_orders, lg) \<Rightarrow> (Inr instrument_orders, lg))))
     (fst (on_ok (py_iter (filter_list (\<lambda>order. \<not> other_instrument ids (order_instrument order)) result))
            (\<lambda>orders. case order_loop strp cid cutoff orders Map.empty [] of
               (instrument_orders, lg) \<Rightarrow> (Inr instrument_orders, lg))))"
proof (cases result)
  case (PList xs)
  show ?thesis
    using order_loop_filter [of _ ids strp cid cutoff xs "[]" "[]"]
    by (simp add: PList on_ok_def agree_on_def case_prod_beta)
qed (simp_all add: agree_on_refl)

lemma process_orders_configured:
  "agree_on (set ids) agg_of
     (fst (process_orders strp cid cutoff order_book_response))
     (fst (process_orders strp cid cutoff (configured_order_book ids order_book_response)))"
proof (cases order_book_response)
  case (PDict d)
  show ?thesis
  proof (cases "map_of d ''result''")
    case None
    then show ?thesis
      by (simp add: PDict process_orders_def configured_order_book_def on_ok_def
          dict_get_map_entry dict_get_default_def map_of_map_entry agree_on_refl)
  next
    case (Some result)
    then show ?thesis
      using order_result_configured [of ids result strp cid cutoff]
      by (simp add: PDict process_orders_def configured_order_book_def on_ok_def
          dict_get_map_entry dict_get_default_def map_of_map_entry agree_on_refl)
  qed
qed (simp_all add: configured_order_book_def agree_on_refl)

lemma summarize_client_fst:
  "fst (summarize_client strp cutoff sd cid params (ob, pos, hold)) =
     (case fst (process_positions cid pos) of
        Inl e \<Rightarrow> Inl e
      | Inr lp \<Rightarrow>
          (case fst (process_holdings cid hold) of
             Inl e \<Rightarrow> Inl e
           | Inr hs \<Rightarrow>
               (case fst (process_orders strp cid cutoff ob) of
                  Inl e \<Rightarrow> Inl e
                | Inr io \<Rightarrow> fst (build_rows cid sd io lp hs (target_items params) [] []))))"
  by (simp add: summarize_client_def target_items_def split: prod.split sum.split)

lemma summarize_client_configured:
  "fst (summarize_client strp cutoff sd cid params
          (configured_order_book (configured_ids (target_items params)) ob,
           configured_positions (configured_ids (target_items params)) pos,
           configured_holdings (configured_ids (target_items params)) hold)) =
   fst (summarize_client strp cutoff sd cid params (ob, pos, hold))"
proof -
  let ?ids = "configured_ids (target_items params)"
  have p: "agree_on (set ?ids) (\<lambda>m i. m i) (fst (process_positions cid pos))
      (fst (process_positions cid (configured_positions ?ids pos)))"
    by (rule process_positions_configured)
  have h: "agree_on (set ?ids) (\<lambda>m i. m i) (fst (process_holdings cid hold))
      (fst (process_holdings cid (configured_holdings ?ids hold)))"
    by (rule process_holdings_configured)
  have o: "agree_on (set ?ids) agg_of (fst (process_orders strp cid cutoff ob))
      (fst (process_orders strp cid cutoff (configured_order_book ?ids ob)))"
    by (rule process_orders_configured)
  have b: "fst (build_rows cid sd io' lp' hs' (target_items params) [] []) =
      fst (build_rows cid sd io lp hs (target_items params) [] [])"
    if lp: "\<forall>i \<in> set ?ids. lp' i = lp i" and hs: "\<forall>i \<in> set ?ids. hs' i = hs i"
      and io: "\<forall>i \<in> set ?ids. agg_of io' i = agg_of io i" for io io' lp lp' hs hs'
  proof -
    have "\<forall>item \<in> set (target_items params). \<forall>i. key_int (fst item) = Inr i \<longrightarrow>
        agg_of io' i = agg_of io i \<and> lp' i = lp i \<and> hs' i = hs i"
    proof (intro ballI allI impI)
      fix item i
      assume "item \<in> set (target_items params)" and "key_int (fst item) = Inr i"
      then have "i \<in> set ?ids" unfolding configured_ids_mem by blast
      then show "agg_of io' i = agg_of io i \<and> lp' i = lp i \<and> hs' i = hs i"
        using lp hs io by blast
    qed
    from build_rows_agree [OF this] show ?thesis by simp
  qed
  show ?thesis
    unfolding summarize_client_fst
    using p h o b by (auto simp: agree_on_def split: sum.splits)
qed

lemma fetch_configured:
  "fetch (configured_api ids a) cid =
     map_sum id
       (\<lambda>r. case r of (ob, pos, hold) \<Rightarrow>
          (configured_order_book ids ob, configured_positions ids pos,
           configured_holdings ids hold))
       (fetch a cid)"
  by (cases "get_order_book a cid"; cases "get_position_daywise a cid";
      cases "get_holding a cid")
    (simp_all add: fetch_def bind_def configured_api_def)

lemma process_client_fst:
  assumes "client_apis cid = Some a" and "fetch a cid = Inr responses"
  shows "fst (process_client strp cutoff sd client_apis (cid, params)) =
     map_sum id Some (fst (summarize_client strp cutoff sd cid params responses))"
  using assms by (simp add: process_client_def split: prod.split sum.split)

lemma process_client_configured:
  assumes "client_apis cid = Some a"
  shows "fst (process_client strp cutoff sd
            (client_apis(cid \<mapsto> configured_api (configured_ids (target_items params)) a))
            (cid, params)) =
         fst (process_client strp cutoff sd client_apis (cid, params))"
proof (cases "fetch a cid")
  case (Inl e)
  then show ?thesis
    using assms by (simp add: process_client_def fetch_configured)
next
  case (Inr responses)
  obtain ob pos hold where r: "responses = (ob, pos, hold)" by (cases responses)
  let ?ids = "configured_ids (target_items params)"
  let ?apis = "client_apis(cid \<mapsto> configured_api ?ids a)"
  have h: "?apis cid = Some (configured_api ?ids a)" by simp
  have f: "fetch (configured_api ?ids a) cid =
      Inr (configured_order_book ?ids ob, configured_positions ?ids pos,
           configured_holdings ?ids hold)"
    by (simp add: fetch_configured Inr r)
  have f0: "fetch a cid = Inr (ob, pos, hold)" using Inr r by simp
  have L: "fst (process_client strp cutoff sd ?apis (cid, params)) =
      map_sum id Some (fst (summarize_client strp cutoff sd cid params
        (configured_order_book ?ids ob, configured_positions ?ids pos,
         configured_holdings ?ids hold)))"
    using h f
    by (rule process_client_fst [where client_apis = ?apis and cid = cid
          and a = "configured_api ?ids a"])
  have R: "fst (process_client strp cutoff sd client_apis (cid, params)) =
      map_sum id Some (fst (summarize_client strp cutoff sd cid params (ob, pos, hold)))"
    using assms f0
    by (rule process_client_fst [where client_apis = client_apis and cid = cid and a = a])
  show ?thesis
    unfolding L R summarize_client_configured ..
qed

lemma process_client_other:
  "other \<noteq> cid \<Longrightarrow>
   process_client strp cutoff sd (client_apis(cid \<mapsto> x)) (other, params) =
     process_client strp cutoff sd client_apis (other, params)"
  by (simp add: process_client_def)

lemma client_loop_cong:
  assumes "\<forall>client \<in> set clients.
      fst (process_client strp cutoff sd apis' client) =
        fst (process_client strp cutoff sd apis client)"
  shows "fst (client_loop strp cutoff sd apis' clients summary_data lg') =
     fst (client_loop strp cutoff sd apis clients summary_data lg)"
  using assms
proof (induction clients arbitrary: summary_data lg lg')
  case Nil
  show ?case by simp
next
  case (Cons client clients)
  obtain r l where p: "process_client strp cutoff sd apis client = (r, l)"
    by (cases "process_client strp cutoff sd apis client")
  obtain r' l' where p': "process_client strp cutoff sd apis' client = (r', l')"
    by (cases "process_client strp cutoff sd apis' client")
  have r: "r' = r" using Cons.prems p p' by simp
  have rest: "\<forall>client \<in> set clients.
      fst (process_client strp cutoff sd apis' client) =
        fst (process_client strp cutoff sd apis client)"
    using Cons.prems by simp
  show ?case
  proof (cases r)
    case (Inl e)
    then show ?thesis by (simp add: p p' r)
  next
    case (Inr x)
    show ?thesis
    proof (cases x)
      case None
      show ?thesis
        using Cons.IH [OF rest, of summary_data "lg' @ l'" "lg @ l"]
        by (simp add: p p' r Inr None)
    next
      case (Some rows)
      show ?thesis
        using Cons.IH [OF rest, of "dict_set summary_data (fst client) rows" "lg' @ l'" "lg @ l"]
        by (simp add: p p' r Inr Some)
    qed
  qed
qed

lemma run_configured:
  assumes d: "distinct (map fst client_details)"
    and c: "(cid, params) \<in> set client_details"
    and a: "client_apis cid = Some a"
  shows "fst (generate_summary_data_sell strp client_details cutoff sd
            (client_apis(cid \<mapsto> configured_api (configured_ids (target_items params)) a))) =
         fst (generate_summary_data_sell strp client_details cutoff sd client_apis)"
proof -
  let ?apis = "client_apis(cid \<mapsto> configured_api (configured_ids (target_items params)) a)"
  have "fst (process_client strp cutoff sd ?apis client) =
      fst (process_client strp cutoff sd client_apis client)"
    if m: "client \<in> set client_details" for client
  proof (cases "fst client = cid")
    case True
    have "client = (cid, params)"
      using eq_key_imp_eq_value [OF d, of cid "snd client" params] m c True
      by (cases client) simp
    then show ?thesis
      using process_client_configured [where client_apis = client_apis and cid = cid and a = a
          and strp = strp and cutoff = cutoff and sd = sd and params = params] a
      by simp
  next
    case False
    then show ?thesis
      using process_client_other [of "fst client" cid strp cutoff sd client_apis _ "snd client"]
      by simp
  qed
  then show ?thesis
    unfolding generate_summary_data_sell_def by (intro client_loop_cong) blast
qed

lemma build_row_key:
  "build_row sd io lp hs item = Inr row \<Longrightarrow> \<exists>s. key_str (fst item) = Inr s"
  by (cases item) (auto simp: build_row_def bind_def split: sum.splits)

lemma build_row_target:
  "build_row sd io lp hs item = Inr row \<Longrightarrow> Target row = snd item"
  by (cases item) (auto simp: build_row_def bind_def Let_def split: sum.splits)

lemma build_rows_keys:
  "build_rows cid sd io lp hs items rows lg = (Inr r, l) \<Longrightarrow>
   \<forall>item \<in> set items. \<exists>s. key_str (fst item) = Inr s"
proof (induction items arbitrary: rows lg)
  case Nil
  show ?case by simp
next
  case (Cons item items)
  show ?case
  proof (cases "build_row sd io lp hs item")
    case (Inr row)
    have "build_rows cid sd io lp hs items (rows @ [row]) lg = (Inr r, l)"
      using Cons.prems by (simp add: Inr)
    from Cons.IH [OF this] build_row_key [OF Inr] show ?thesis by simp
  next
    case e: (Inl e)
    show ?thesis
    proof (cases "key_str (fst item)")
      case (Inl e')
      then show ?thesis using Cons.prems e by simp
    next
      case (Inr s)
      have "build_rows cid sd io lp hs items rows (lg @ [InstrumentError s cid e]) = (Inr r, l)"
        using Cons.prems by (simp add: e Inr)
      from Cons.IH [OF this] Inr show ?thesis by simp
    qed
  qed
qed

lemma summarize_client_rows:
  assumes "summarize_client strp cutoff sd cid params (ob, pos, hold) = (Inr rows, l)"
  shows "\<exists>lp hs io l1 l2 l3.
     process_positions cid pos = (Inr lp, l1) \<and>
     process_holdings cid hold = (Inr hs, l2) \<and>
     process_orders strp cid cutoff ob = (Inr io, l3) \<and>
     (\<forall>item \<in> set (target_items params). \<exists>s. key_str (fst item) = Inr s) \<and>
     rows = List.map_filter (row_of sd io lp hs) (target_items params) \<and>
     l = l1 @ l2 @ l3 @ List.map_filter (message_of cid sd io lp hs) (target_items params)"
proof -
  obtain rp l1 where p: "process_positions cid pos = (rp, l1)"
    by (cases "process_positions cid pos")
  obtain lp where rp: "rp = Inr lp"
    using assms p by (cases rp) (simp_all add: summarize_client_def)
  obtain rh l2 where h: "process_holdings cid hold = (rh, l2)"
    by (cases "process_holdings cid hold")
  obtain hs where rh: "rh = Inr hs"
    using assms p rp h by (cases rh) (simp_all add: summarize_client_def)
  obtain ro l3 where o: "process_orders strp cid cutoff ob = (ro, l3)"
    by (cases "process_orders strp cid cutoff ob")
  obtain io where ro: "ro = Inr io"
    using assms p rp h rh o by (cases ro) (simp_all add: summarize_client_def)
  obtain rb l4 where b: "build_rows cid sd io lp hs (target_items params) [] [] = (rb, l4)"
    by (cases "build_rows cid sd io lp hs (target_items params) [] []")
  have s: "rb = Inr rows" "l = l1 @ l2 @ l3 @ l4"
    using assms p rp h rh o ro b by (simp_all add: summarize_client_def target_items_def)
  have k: "\<forall>item \<in> set (target_items params). \<exists>s. key_str (fst item) = Inr s"
    using build_rows_keys [of cid sd io lp hs "target_items params" "[]" "[]" rows l4] b s(1)
    by simp
  have "rows = List.map_filter (row_of sd io lp hs) (target_items params)"
    "l4 = List.map_filter (message_of cid sd io lp hs) (target_items params)"
    using build_rows_eq [OF k, of cid sd io lp hs "[]" "[]"] b s(1) by simp_all
  then show ?thesis using p rp h rh o ro k s(2) by blast
qed

lemma row_or_message:
  assumes "\<forall>item \<in> set items. \<exists>s. key_str (fst item) = Inr s"
  shows "length (List.map_filter (row_of sd io lp hs) items) +
     length (List.map_filter (message_of cid sd io lp hs) items) = length items"
  using assms
  by (induction items)
    (auto simp: map_filter_simps row_of_def message_of_def split: sum.splits)

lemma set_map_filter_iff:
  "y \<in> set (List.map_filter f xs) \<longleftrightarrow> (\<exists>x \<in> set xs. f x = Some y)"
  by (induction xs) (auto simp: map_filter_simps split: option.splits)

lemma two_instrument_orders_agg:
  "process_orders example_strptime client_id example_cutoff two_instrument_order_book =
     (Inr [100 \<mapsto> \<lparr>executed = 20, open_qty = 0, rejected = 0\<rparr>,
           200 \<mapsto> \<lparr>executed = 9, open_qty = 0, rejected = 0\<rparr>], [])"
  by (simp add: process_orders_def on_ok_def two_instrument_order_book_def dict_get_def
      dict_get_default_def order_step_def order_body_def example_times example_cutoff_def
      count_order_def bind_def upper_char_def agg_of_def zero_agg_def)

lemma two_instrument_fetch:
  "fetch two_instrument_api client_id =
     Inr (two_instrument_order_book, empty_positions, holdings_of (PInt 80))"
  by (simp add: fetch_def bind_def two_instrument_api_def)

lemma two_instrument_summary:
  "summarize_client example_strptime example_cutoff Map.empty client_id two_key_params
     (two_instrument_order_book, empty_positions, holdings_of (PInt 80)) =
     (Inr [example_row], [InstrumentError ''abc'' client_id ValueError])"
  by (simp add: summarize_client_def two_instrument_orders_agg example_holdings_map
      example_positions_map two_key_params_def build_row_def bind_def dict_get_default_def
      str_int_100 example_row_def int_of_string_abc)

lemma two_instrument_run:
  "generate_summary_data_sell example_strptime [(''C1'', two_key_params)] example_cutoff
     Map.empty [''C1'' \<mapsto> two_instrument_api] =
     (Inr [(''C1'', [example_row])], [InstrumentError ''abc'' ''C1'' ValueError])"
  by (simp add: generate_summary_data_sell_def process_client_def two_instrument_fetch
      two_instrument_summary)

lemma text_holding_run:
  "generate_summary_data_sell example_strptime [(''C1'', example_params)] example_cutoff
     Map.empty [''C1'' \<mapsto> example_api (PStr ''80'')] =
     (Inr [(''C1'', [])], [InstrumentError ''100'' ''C1'' TypeError])"
  by (simp add: generate_summary_data_sell_def process_client_def example_fetch
      text_holding_summary)

lemma two_key_ids: "configured_ids (target_items two_key_params) = [100]"
  by (simp add: configured_ids_def target_items_def two_key_params_def map_filter_simps
      int_of_string_abc)

text \<open>
  C7.  As stated: the summary of every successfully processed client holds exactly one
  row per pair of its target configuration.  A client whose one configured instrument has
  its holding quantity delivered as text is processed, and its summary is stored, but
  with no row for the configured pair: the subtraction of line 129 raises
  \<open>TypeError\<close>, and the pair is logged and skipped.
\<close>

theorem configured_instrument_without_row:
  "target_items example_params = [(KInt 100, PInt 50)] \<and>
   generate_summary_data_sell example_strptime [(''C1'', example_params)] example_cutoff
     Map.empty [''C1'' \<mapsto> example_api (PStr ''80'')] =
     (Inr [(''C1'', [])], [InstrumentError ''100'' ''C1'' TypeError])"
proof -
  have t: "target_items example_params = [(KInt 100, PInt 50)]"
    by (simp add: target_items_def example_params_def)
  show ?thesis using t text_holding_run by (intro conjI)
qed

text \<open>
  C7, amended.  Take a run that returns its mapping, and in it a client that has an API
  handle and whose three feeds were fetched.  Then the three feeds normalize, and the
  mapping holds under the client's id the rows of its target configuration, in the order
  of the configuration: one row for every pair for which the row builder returns a row,
  carrying the configured target, and for every pair for which it raises no row but one
  message in the log of the run; rows and messages together are as many as the pairs.
  Every row of the summary is the row of a configured pair, and the mapping of the whole
  run stays the same when the client's feeds come without the orders, positions and
  holdings of instruments that are not configured.
\<close>

theorem summary_rows_follow_configuration:
  assumes run: "generate_summary_data_sell strp client_details order_start_time stock_details
        client_apis = (Inr summary_data, lg)"
    and keys: "distinct (map fst client_details)"
    and client: "(client_id, params) \<in> set client_details"
    and handle: "client_apis client_id = Some a"
    and fetched: "fetch a client_id = Inr (order_book_response, pos_response, holding_response)"
  shows "\<exists>live_positions holdings instrument_orders rows.
     fst (process_positions client_id pos_response) = Inr live_positions \<and>
     fst (process_holdings client_id holding_response) = Inr holdings \<and>
     fst (process_orders strp client_id order_start_time order_book_response) =
       Inr instrument_orders \<and>
     map_of summary_data client_id = Some rows \<and>
     rows = List.map_filter (row_of stock_details instrument_orders live_positions holdings)
              (target_items params) \<and>
     length rows +
       length (List.map_filter
                 (message_of client_id stock_details instrument_orders live_positions holdings)
                 (target_items params)) = length (target_items params) \<and>
     (\<forall>item \<in> set (target_items params).
        case build_row stock_details instrument_orders live_positions holdings item of
          Inr row \<Rightarrow> row \<in> set rows \<and> Target row = snd item
        | Inl e \<Rightarrow>
            (\<exists>s. key_str (fst item) = Inr s \<and> InstrumentError s client_id e \<in> set lg)) \<and>
     (\<forall>row \<in> set rows. \<exists>item \<in> set (target_items params).
        build_row stock_details instrument_orders live_positions holdings item = Inr row) \<and>
     fst (generate_summary_data_sell strp client_details order_start_time stock_details
            (client_apis(client_id \<mapsto>
               configured_api (configured_ids (target_items params)) a))) =
       Inr summary_data"
proof -
  let ?items = "target_items params"
  have loop: "client_loop strp order_start_time stock_details client_apis client_details [] [] =
      (Inr summary_data, lg)"
    using run unfolding generate_summary_data_sell_def .
  obtain r l where p: "process_client strp order_start_time stock_details client_apis
      (client_id, params) = (r, l)"
    by (cases "process_client strp order_start_time stock_details client_apis
      (client_id, params)")
  obtain sr sl where s: "summarize_client strp order_start_time stock_details client_id params
      (order_book_response, pos_response, holding_response) = (sr, sl)"
    by (cases "summarize_client strp order_start_time stock_details client_id params
      (order_book_response, pos_response, holding_response)")
  have rl: "r = map_sum id Some sr" "l = sl"
    using p s handle fetched by (simp_all add: process_client_def split: sum.splits)
  have e: "case r of Inl e \<Rightarrow> False
      | Inr None \<Rightarrow> map_of summary_data client_id = map_of [] client_id
      | Inr (Some rows) \<Rightarrow> map_of summary_data client_id = Some rows"
    and sub: "set l \<subseteq> set lg"
    using client_loop_entry [OF loop keys client p] by simp_all
  obtain rows where sr: "sr = Inr rows"
    using e rl(1) by (cases sr) simp_all
  have m: "map_of summary_data client_id = Some rows"
    using e rl(1) sr by simp
  have s': "summarize_client strp order_start_time stock_details client_id params
      (order_book_response, pos_response, holding_response) = (Inr rows, l)"
    using s sr rl(2) by simp
  from summarize_client_rows [OF s'] obtain lp hs io l1 l2 l3 where
    pp: "process_positions client_id pos_response = (Inr lp, l1)"
    and ph: "process_holdings client_id holding_response = (Inr hs, l2)"
    and po: "process_orders strp client_id order_start_time order_book_response = (Inr io, l3)"
    and k: "\<forall>item \<in> set ?items. \<exists>s. key_str (fst item) = Inr s"
    and rows: "rows = List.map_filter (row_of stock_details io lp hs) ?items"
    and l: "l = l1 @ l2 @ l3 @
        List.map_filter (message_of client_id stock_details io lp hs) ?items"
    by blast
  have len: "length rows +
      length (List.map_filter (message_of client_id stock_details io lp hs) ?items) =
      length ?items"
    unfolding rows by (rule row_or_message [OF k])
  have each: "\<forall>item \<in> set ?items.
      case build_row stock_details io lp hs item of
        Inr row \<Rightarrow> row \<in> set rows \<and> Target row = snd item
      | Inl e \<Rightarrow> (\<exists>s. key_str (fst item) = Inr s \<and> InstrumentError s client_id e \<in> set lg)"
  proof
    fix item
    assume i: "item \<in> set ?items"
    show "case build_row stock_details io lp hs item of
        Inr row \<Rightarrow> row \<in> set rows \<and> Target row = snd item
      | Inl e \<Rightarrow> (\<exists>s. key_str (fst item) = Inr s \<and> InstrumentError s client_id e \<in> set lg)"
    proof (cases "build_row stock_details io lp hs item")
      case (Inr row)
      have "row_of stock_details io lp hs item = Some row"
        by (simp add: row_of_def Inr)
      then have "row \<in> set rows"
        unfolding rows set_map_filter_iff using i by blast
      then show ?thesis
        using build_row_target [OF Inr] by (simp add: Inr)
    next
      case (Inl e)
      obtain s where ks: "key_str (fst item) = Inr s" using k i by blast
      have "message_of client_id stock_details io lp hs item =
          Some (InstrumentError s client_id e)"
        by (simp add: message_of_def Inl ks)
      then have "InstrumentError s client_id e \<in>
          set (List.map_filter (message_of client_id stock_details io lp hs) ?items)"
        unfolding set_map_filter_iff using i by blast
      then have "InstrumentError s client_id e \<in> set lg"
        using sub l by auto
      then show ?thesis using ks by (simp add: Inl)
    qed
  qed
  have only: "\<forall>row \<in> set rows. \<exists>item \<in> set ?items.
      build_row stock_details io lp hs item = Inr row"
  proof
    fix row
    assume "row \<in> set rows"
    then obtain item where i: "item \<in> set ?items"
      and r: "row_of stock_details io lp hs item = Some row"
      unfolding rows set_map_filter_iff by blast
    have "build_row stock_details io lp hs item = Inr row"
      using r by (cases "build_row stock_details io lp hs item") (simp_all add: row_of_def)
    then show "\<exists>item \<in> set ?items. build_row stock_details io lp hs item = Inr row"
      using i by blast
  qed
  have same: "fst (generate_summary_data_sell strp client_details order_start_time
        stock_details
        (client_apis(client_id \<mapsto> configured_api (configured_ids ?items) a))) =
      Inr summary_data"
    using run_configured [where client_details = client_details and cid = client_id
        and params = params and client_apis = client_apis and a = a and strp = strp
        and cutoff = order_start_time and sd = stock_details] keys client handle run
    by simp
  show ?thesis
    using pp ph po m rows len each only same
    by (intro exI [of _ lp] exI [of _ hs] exI [of _ io] exI [of _ rows] conjI) simp_all
qed

theorem summary_rows_follow_configuration_witness:
  "generate_summary_data_sell example_strptime [(''C1'', two_key_params)] example_cutoff
     Map.empty [''C1'' \<mapsto> two_instrument_api] =
     (Inr [(''C1'', [example_row])], [InstrumentError ''abc'' ''C1'' ValueError]) \<and>
   target_items two_key_params = [(KInt 100, PInt 50), (KStr ''abc'', PInt 5)] \<and>
   fst (generate_summary_data_sell example_strptime [(''C1'', two_key_params)] example_cutoff
          Map.empty [''C1'' \<mapsto> configured_api [100] two_instrument_api]) =
     Inr [(''C1'', [example_row])]"
proof -
  let ?sd = "Map.empty :: int \<rightharpoonup> (string \<times> pyval) list"
  let ?apis = "[''C1'' \<mapsto> two_instrument_api]"
  have run: "generate_summary_data_sell example_strptime [(''C1'', two_key_params)]
      example_cutoff ?sd ?apis =
      (Inr [(''C1'', [example_row])], [InstrumentError ''abc'' ''C1'' ValueError])"
    by (rule two_instrument_run)
  have keys: "distinct (map fst [(''C1'', two_key_params)])" by simp
  have client: "(''C1'', two_key_params) \<in> set [(''C1'', two_key_params)]" by simp
  have handle: "?apis ''C1'' = Some two_instrument_api" by simp
  have fetched: "fetch two_instrument_api ''C1'' =
      Inr (two_instrument_order_book, empty_positions, holdings_of (PInt 80))"
    by (rule two_instrument_fetch)
  have "fst (generate_summary_data_sell example_strptime [(''C1'', two_key_params)]
        example_cutoff ?sd
        (?apis(''C1'' \<mapsto> configured_api (configured_ids (target_items two_key_params))
           two_instrument_api))) = Inr [(''C1'', [example_row])]"
    using summary_rows_follow_configuration [where strp = example_strptime
        and client_details = "[(''C1'', two_key_params)]" and order_start_time = example_cutoff
        and stock_details = ?sd and client_apis = ?apis and client_id = "''C1''"
        and params = two_key_params and a = two_instrument_api
        and summary_data = "[(''C1'', [example_row])]"
        and lg = "[InstrumentError ''abc'' ''C1'' ValueError]"
        and order_book_response = two_instrument_order_book
        and pos_response = empty_positions
        and holding_response = "holdings_of (PInt 80)"] run keys client handle fetched
    by blast
  then have c: "fst (generate_summary_data_sell example_strptime [(''C1'', two_key_params)]
        example_cutoff ?sd [''C1'' \<mapsto> configured_api [100] two_instrument_api]) =
      Inr [(''C1'', [example_row])]"
    by (simp add: two_key_ids)
  have t: "target_items two_key_params = [(KInt 100, PInt 50), (KStr ''abc'', PInt 5)]"
    by (simp add: target_items_def two_key_params_def)
  show ?thesis using run t c by (intro conjI)
qed

end
